theory Spec2Isabelle
  imports Main "HOL-Library.Word"
begin

section \<open>The data model of lazy.cc\<close>

text \<open>
  The program instantiates \<open>Lazy<T>\<close> at \<open>T = int\<close> only, and the two steps of
  \<open>operator+\<close> take their argument as \<open>int\<close>. An \<open>int\<close> is a 32-bit word here;
  \<open>+\<close> on it wraps around, where C++ leaves signed overflow undefined. \<open>sint\<close> reads
  the word as the signed value.
\<close>

type_synonym int32 = "32 word"

datatype State = LAZY_NOT_READY | LAZY_READY | LAZY_FAIL

text \<open>
  A \<open>boost::function\<close> is a closure over the runtime's own state, so it cannot be a HOL
  function stored inside that state. The closures are defunctionalised: one constructor
  for each \<open>boost::bind\<close> expression of the source, with the bound arguments; a handle
  (\<open>shared_ptr<Impl>\<close>, \<open>shared_ptr<Wait>\<close>) is the index of the object in the arena.
  \<^item> \<open>Plus_step1 r b\<close> is \<open>boost::bind(&Impl::operator_plus_step1, result.p_impl_, _1, b)\<close>;
  \<^item> \<open>Plus_step2 r\<close> is \<open>boost::bind(&Impl::operator_plus_step2, this->shared_from_this(), _1)\<close>;
  \<^item> \<open>One_ready j\<close> is \<open>boost::bind(&Wait::one_ready, shared_from_this())\<close>;
  \<^item> \<open>Async_continue\<close> is \<open>boost::bind(&__async_continue)\<close>;
  \<^item> \<open>Print name\<close> is a client's \<open>boost::bind(&print, name, _1)\<close>, and
    \<open>Print_val name a\<close> a client's \<open>boost::bind(&print, name, a)\<close>, which takes no argument;
  \<^item> \<open>Bind_on_ready p cb\<close> is a client's closure that calls \<open>p.on_ready(cb)\<close>.
\<close>

datatype closure =
    Plus_step1 nat nat
  | Plus_step2 nat
  | One_ready nat
  | Async_continue
  | Print string
  | Print_val string int32
  | Bind_on_ready nat closure

text \<open>
  \<open>struct Impl\<close>. The C++ member names end in an underscore, which an Isabelle name may
  not; the fields carry the prefix \<open>m_\<close> instead.

  Modelled from the spec: \<open>boost::signals2::signal\<close> is not part of the repository. A
  signal is the ordered sequence of its connected slots; \<open>connect\<close> appends a slot, and
  an invocation calls the slots that were connected when it started, in connection order,
  each with the invocation's argument (the firing list is a snapshot at invocation start).
\<close>

record Impl =
  m_state :: State
  m_value :: int32
  m_ready_callbacks :: "closure list"
  m_fail_callbacks :: "closure list"

text \<open>\<open>class Wait\<close>: \<open>int counter_\<close> and \<open>std::vector<boost::function<void()> > jobs_\<close>.\<close>

record Wait =
  m_counter :: int32
  m_jobs :: "closure list"

text \<open>
  A coroutine function, as the statements it makes one after the other:
  \<open>__async_wait(var)\<close>, whose value the rest of the function uses, \<open>print\<close>, and the
  end of the function. \<open>Async_wait name p k\<close> is \<open>x = __do_async_wait(name, p)\<close> followed
  by the statements \<open>k x\<close>.
\<close>

datatype routine =
    Async_wait string nat "int32 \<Rightarrow> routine"
  | Print_line string int32 routine
  | Return

text \<open>The three global \<open>ucontext_t\<close> objects.\<close>

datatype context_name = Return_context | Main_context | Coroutine_context

text \<open>
  The calls of the public interface, as the statements a client or a closure body makes.
  Every function of the source updates the state and then makes its nested calls last, so
  a function of the model returns the new state and the calls it makes, in order.
  \<^item> \<open>Coroutine r\<close> is the coroutine function at the statements \<open>r\<close>;
  \<^item> \<open>Async_wait_return p k\<close> is the end of \<open>__do_async_wait\<close>, \<open>return var.get()\<close>, and the
    coroutine function after it;
  \<^item> \<open>START_COROUTINE_AND_RUN_ONCE r body\<close> is the macro with the coroutine function \<open>r\<close>
    and the statements \<open>body\<close> behind it, and \<open>Run_once body\<close> is its \<open>if\<close> statement;
  \<^item> \<open>Flow_off_end\<close> is the closing brace of a function that is declared to return a
    value, reached without a \<open>return\<close> statement.
\<close>

datatype call =
    Invoke closure "int32 option"
  | Lazy_on_ready nat closure
  | Lazy_on_fail nat closure
  | Lazy_emit_ready nat
  | Lazy_emit_fail nat
  | Lazy_assign nat int32
  | Lazy_plus nat nat
  | Lazy_new
  | Lazy_from_value int32
  | Wait_new
  | Wait_watch nat nat
  | Wait_run nat closure
  | Flow_off_end
  | Swapcontext context_name context_name
  | Coroutine routine
  | Async_wait_return nat "int32 \<Rightarrow> routine"
  | START_COROUTINE_AND_RUN_ONCE routine "call list"
  | Run_once "call list"

text \<open>
  The state of the whole program: the arena of \<open>Impl\<close> objects, the arena of \<open>Wait\<close>
  objects, the lines \<open>print\<close> has written to \<open>std::cout\<close> (each line is the name and
  the number), the variable \<open>coroutine_finished\<close> of the macro and the three contexts.

  Modelled from the spec: the \<open>ucontext\<close> functions of the C library are not part of the
  repository. A saved context is the point where its routine was suspended, to which
  control is transferred back: the model keeps it as the calls that are still to be made
  from that point, and \<open>None\<close> is a context that was never saved. Resuming a context whose
  function calls have returned since it was saved is undefined in C; the model resumes the
  saved calls all the same, and no statement below rests on such a run.
\<close>

record world =
  cells :: "Impl list"
  waits :: "Wait list"
  cout :: "(string \<times> int32) list"
  coroutine_finished :: int32
  return_context :: "call list option"
  main_context :: "call list option"
  coroutine_context :: "call list option"

text \<open>
  \<open>Assertion_failed\<close> is a failed \<open>assert\<close>. \<open>Bad_context\<close> is a transfer to a context
  that was never saved. \<open>Ill_formed\<close> is a call of a member function whose body does not
  compile: a program with that call has no run. \<open>Undefined_behaviour\<close> is a point from
  which C++ gives the program no meaning: nothing is said of what a build does there or
  did before. The other two cannot happen in the C++ program and only make the model
  total: \<open>Bad_handle\<close> is a handle outside the arena (a \<open>shared_ptr\<close> always points to
  its object), \<open>Ill_typed\<close> is a closure that needs its argument called as a \<open>void()\<close>
  function (the C++ type checker refuses it).
\<close>

datatype error =
  Assertion_failed | Bad_context | Ill_formed | Undefined_behaviour | Bad_handle | Ill_typed

type_synonym outcome = "error + world \<times> call list"

section \<open>The future cell\<close>

definition cell_at :: "world \<Rightarrow> nat \<Rightarrow> Impl option" where
  "cell_at w p = (if p < length (cells w) then Some (cells w ! p) else None)"

definition set_cell :: "nat \<Rightarrow> Impl \<Rightarrow> world \<Rightarrow> world" where
  "set_cell p x w = w\<lparr>cells := (cells w)[p := x]\<rparr>"

text \<open>\<open>Impl::Impl()\<close>: \<open>state_(LAZY_NOT_READY)\<close>, \<open>value_(T())\<close>, two empty signals.\<close>

definition Impl_new :: Impl where
  "Impl_new = \<lparr>m_state = LAZY_NOT_READY, m_value = 0, m_ready_callbacks = [], m_fail_callbacks = []\<rparr>"

text \<open>\<open>Impl::on_ready\<close>: connect first, whatever the state; then call it if the cell is ready.\<close>

definition on_ready :: "nat \<Rightarrow> closure \<Rightarrow> world \<Rightarrow> outcome" where
  "on_ready p ready_callback w =
     (case cell_at w p of
        None \<Rightarrow> Inl Bad_handle
      | Some x \<Rightarrow>
          Inr (set_cell p (x\<lparr>m_ready_callbacks := m_ready_callbacks x @ [ready_callback]\<rparr>) w,
               if m_state x = LAZY_READY then [Invoke ready_callback (Some (m_value x))] else []))"

text \<open>\<open>Impl::on_fail\<close>.\<close>

definition on_fail :: "nat \<Rightarrow> closure \<Rightarrow> world \<Rightarrow> outcome" where
  "on_fail p fail_callback w =
     (case cell_at w p of
        None \<Rightarrow> Inl Bad_handle
      | Some x \<Rightarrow>
          Inr (set_cell p (x\<lparr>m_fail_callbacks := m_fail_callbacks x @ [fail_callback]\<rparr>) w,
               if m_state x = LAZY_FAIL then [Invoke fail_callback None] else []))"

text \<open>\<open>Impl::emit_ready\<close>: no check of the state; the signal is invoked with \<open>value_\<close>.\<close>

definition emit_ready :: "nat \<Rightarrow> world \<Rightarrow> outcome" where
  "emit_ready p w =
     (case cell_at w p of
        None \<Rightarrow> Inl Bad_handle
      | Some x \<Rightarrow>
          Inr (set_cell p (x\<lparr>m_state := LAZY_READY\<rparr>) w,
               map (\<lambda>cb. Invoke cb (Some (m_value x))) (m_ready_callbacks x)))"

text \<open>
  \<open>Impl::emit_fail\<close>: \<open>p_impl_->state_ = LAZY_FAIL; fail_callbacks_();\<close>. The first
  statement names \<open>p_impl_\<close> inside \<open>Impl\<close>, and \<open>p_impl_\<close> is a member of \<open>Lazy\<close>, not
  of \<open>Impl\<close>: the body is ill-formed. The program of the source never calls the function,
  so the template is never instantiated there; a program that calls \<open>Lazy::emit_fail\<close>
  does not compile. The function has no check of the state either. The model does not
  repair the statement: a call of \<open>emit_fail\<close> is \<open>Ill_formed\<close>, on every cell.
\<close>

definition emit_fail :: "nat \<Rightarrow> world \<Rightarrow> outcome" where
  "emit_fail p w = Inl Ill_formed"

text \<open>\<open>Impl::operator_plus_step2\<close>: \<open>value_ += b; emit_ready();\<close>\<close>

definition operator_plus_step2 :: "nat \<Rightarrow> int32 \<Rightarrow> world \<Rightarrow> outcome" where
  "operator_plus_step2 p b w =
     (case cell_at w p of
        None \<Rightarrow> Inl Bad_handle
      | Some x \<Rightarrow> Inr (set_cell p (x\<lparr>m_value := m_value x + b\<rparr>) w, [Lazy_emit_ready p]))"

text \<open>\<open>Impl::operator_plus_step1\<close>: \<open>value_ = a; b.on_ready(bind(step2, this, _1));\<close>\<close>

definition operator_plus_step1 :: "nat \<Rightarrow> int32 \<Rightarrow> nat \<Rightarrow> world \<Rightarrow> outcome" where
  "operator_plus_step1 p a b w =
     (case cell_at w p of
        None \<Rightarrow> Inl Bad_handle
      | Some x \<Rightarrow> Inr (set_cell p (x\<lparr>m_value := a\<rparr>) w, [Lazy_on_ready b (Plus_step2 p)]))"

text \<open>\<open>Lazy::Lazy()\<close>: a new \<open>Impl\<close>; its handle is the next index of the arena.\<close>

definition Lazy_empty :: "world \<Rightarrow> outcome" where
  "Lazy_empty w = Inr (w\<lparr>cells := cells w @ [Impl_new]\<rparr>, [])"

text \<open>\<open>Lazy::Lazy(const T& value)\<close>: a new \<open>Impl\<close>, \<open>value_ = value\<close>, then \<open>emit_ready()\<close>.\<close>

definition Lazy_value :: "int32 \<Rightarrow> world \<Rightarrow> outcome" where
  "Lazy_value v w =
     Inr (w\<lparr>cells := cells w @ [Impl_new\<lparr>m_value := v\<rparr>]\<rparr>, [Lazy_emit_ready (length (cells w))])"

text \<open>\<open>Lazy::get\<close>: \<open>assert(p_impl_->state_ == LAZY_READY)\<close>, then the value.\<close>

definition get :: "nat \<Rightarrow> world \<Rightarrow> error + int32" where
  "get p w =
     (case cell_at w p of
        None \<Rightarrow> Inl Bad_handle
      | Some x \<Rightarrow> if m_state x = LAZY_READY then Inr (m_value x) else Inl Assertion_failed)"

text \<open>\<open>Lazy::operator=(const T&)\<close>: the assertion, the value, \<open>emit_ready()\<close>.\<close>

definition assign :: "nat \<Rightarrow> int32 \<Rightarrow> world \<Rightarrow> outcome" where
  "assign p v w =
     (case cell_at w p of
        None \<Rightarrow> Inl Bad_handle
      | Some x \<Rightarrow>
          if m_state x = LAZY_NOT_READY
          then Inr (set_cell p (x\<lparr>m_value := v\<rparr>) w, [Lazy_emit_ready p])
          else Inl Assertion_failed)"

text \<open>
  \<open>Lazy::operator+\<close>: a new empty \<open>result\<close>, then \<open>on_ready\<close> on this cell with step 1
  bound to \<open>result\<close> and \<open>b\<close>. The handle it returns is the index the arena had free.
\<close>

definition operator_plus :: "nat \<Rightarrow> nat \<Rightarrow> world \<Rightarrow> outcome" where
  "operator_plus a b w =
     Inr (w\<lparr>cells := cells w @ [Impl_new]\<rparr>, [Lazy_on_ready a (Plus_step1 (length (cells w)) b)])"

section \<open>The join barrier\<close>

definition wait_at :: "world \<Rightarrow> nat \<Rightarrow> Wait option" where
  "wait_at w j = (if j < length (waits w) then Some (waits w ! j) else None)"

definition set_wait :: "nat \<Rightarrow> Wait \<Rightarrow> world \<Rightarrow> world" where
  "set_wait j x w = w\<lparr>waits := (waits w)[j := x]\<rparr>"

text \<open>\<open>Wait::Wait()\<close>: \<open>counter_(0)\<close> and no job.\<close>

definition Wait_empty :: "world \<Rightarrow> outcome" where
  "Wait_empty w = Inr (w\<lparr>waits := waits w @ [\<lparr>m_counter = 0, m_jobs = []\<rparr>]\<rparr>, [])"

text \<open>
  \<open>Wait::operator()\<close>: \<open>++counter_\<close>, then \<open>on_ready\<close> on the future with \<open>one_ready\<close>
  bound to \<open>shared_from_this()\<close>: the barrier is taken to be owned by a \<open>shared_ptr\<close>.
\<close>

definition watch :: "nat \<Rightarrow> nat \<Rightarrow> world \<Rightarrow> outcome" where
  "watch j lazy_value w =
     (case wait_at w j of
        None \<Rightarrow> Inl Bad_handle
      | Some x \<Rightarrow>
          Inr (set_wait j (x\<lparr>m_counter := m_counter x + 1\<rparr>) w, [Lazy_on_ready lazy_value (One_ready j)]))"

text \<open>
  \<open>Wait::run\<close>: \<open>jobs_.push_back(job)\<close>, and the job is called if the counter is 0.
  The source declares the result \<open>Wait&\<close> and the body ends without a \<open>return\<close>:
  flowing off the end of such a function is undefined behaviour, and every path through
  the body does it. So the statements of the body are followed by \<open>Flow_off_end\<close>, and no
  call of \<open>run\<close> returns to its caller.
\<close>

definition run :: "nat \<Rightarrow> closure \<Rightarrow> world \<Rightarrow> outcome" where
  "run j job w =
     (case wait_at w j of
        None \<Rightarrow> Inl Bad_handle
      | Some x \<Rightarrow>
          Inr (set_wait j (x\<lparr>m_jobs := m_jobs x @ [job]\<rparr>) w,
               (if m_counter x = 0 then [Invoke job None] else []) @ [Flow_off_end]))"

definition flow_off_end :: "world \<Rightarrow> outcome" where
  "flow_off_end w = Inl Undefined_behaviour"

text \<open>
  \<open>Wait::one_ready\<close>: \<open>--counter_\<close>, and every job of \<open>jobs_\<close> is called if it is 0 now.
  No closure of the model calls \<open>run\<close>, so the vector does not change under the loop.
  Jobs come into \<open>jobs_\<close> through \<open>run\<close> only.
\<close>

definition one_ready :: "nat \<Rightarrow> world \<Rightarrow> outcome" where
  "one_ready j w =
     (case wait_at w j of
        None \<Rightarrow> Inl Bad_handle
      | Some x \<Rightarrow>
          Inr (set_wait j (x\<lparr>m_counter := m_counter x - 1\<rparr>) w,
               if m_counter x - 1 = 0 then map (\<lambda>job. Invoke job None) (m_jobs x) else []))"

section \<open>The suspension bridge and the scheduler\<close>

definition context_of :: "context_name \<Rightarrow> world \<Rightarrow> call list option" where
  "context_of c w =
     (case c of
        Return_context \<Rightarrow> return_context w
      | Main_context \<Rightarrow> main_context w
      | Coroutine_context \<Rightarrow> coroutine_context w)"

definition save_context :: "context_name \<Rightarrow> call list \<Rightarrow> world \<Rightarrow> world" where
  "save_context c k w =
     (case c of
        Return_context \<Rightarrow> w\<lparr>return_context := Some k\<rparr>
      | Main_context \<Rightarrow> w\<lparr>main_context := Some k\<rparr>
      | Coroutine_context \<Rightarrow> w\<lparr>coroutine_context := Some k\<rparr>)"

text \<open>
  \<open>swapcontext(oucp, ucp)\<close>: the current context, whose remaining calls are \<open>rest\<close>, is
  saved in \<open>oucp\<close>, and the context \<open>ucp\<close> is resumed.
\<close>

definition swapcontext :: "context_name \<Rightarrow> context_name \<Rightarrow> call list \<Rightarrow> world \<Rightarrow> outcome" where
  "swapcontext oucp ucp rest w =
     (case context_of ucp (save_context oucp rest w) of
        None \<Rightarrow> Inl Bad_context
      | Some k \<Rightarrow> Inr (save_context oucp rest w, k))"

text \<open>\<open>__async_continue\<close>: \<open>swapcontext(&main_context, &coroutine_context)\<close>.\<close>

definition async_continue :: "world \<Rightarrow> outcome" where
  "async_continue w = Inr (w, [Swapcontext Main_context Coroutine_context])"

text \<open>
  \<open>__do_async_wait\<close>: \<open>var.on_ready(boost::bind(&__async_continue))\<close>, then
  \<open>swapcontext(&coroutine_context, &main_context)\<close>, then \<open>return var.get()\<close>
  (\<open>DEBUG\<close> is not defined, so nothing is written).
\<close>

definition do_async_wait :: "string \<Rightarrow> nat \<Rightarrow> (int32 \<Rightarrow> routine) \<Rightarrow> world \<Rightarrow> outcome" where
  "do_async_wait name var k w =
     Inr (w, [Lazy_on_ready var Async_continue,
              Swapcontext Coroutine_context Main_context,
              Async_wait_return var k])"

definition async_wait_return :: "nat \<Rightarrow> (int32 \<Rightarrow> routine) \<Rightarrow> world \<Rightarrow> outcome" where
  "async_wait_return var k w =
     (case get var w of Inl e \<Rightarrow> Inl e | Inr v \<Rightarrow> Inr (w, [Coroutine (k v)]))"

text \<open>
  The coroutine function returns: the context of \<open>uc_link\<close>, which the macro sets to
  \<open>&return_context\<close>, is resumed.
\<close>

definition coroutine_return :: "world \<Rightarrow> outcome" where
  "coroutine_return w =
     (case return_context w of None \<Rightarrow> Inl Bad_context | Some k \<Rightarrow> Inr (w, k))"

text \<open>
  \<open>START_COROUTINE_AND_RUN_ONCE\<close>: \<open>coroutine_finished = 0\<close>; \<open>makecontext\<close> leaves in
  \<open>coroutine_context\<close> the start of the coroutine function; \<open>getcontext(&return_context)\<close>
  saves the point right before the \<open>if\<close>; then the \<open>if\<close>. \<open>getcontext\<close> is taken to
  succeed, so the two assertions on its result hold.
\<close>

definition start_coroutine :: "routine \<Rightarrow> call list \<Rightarrow> call list \<Rightarrow> world \<Rightarrow> outcome" where
  "start_coroutine coroutine_function body rest w =
     Inr (w\<lparr>coroutine_finished := 0,
            return_context := Some (Run_once body # rest),
            coroutine_context := Some [Coroutine coroutine_function]\<rparr>,
          Run_once body # rest)"

text \<open>
  \<open>if (coroutine_finished || ((coroutine_finished = 1), swapcontext(&main_context,
  &coroutine_context))) {} else body\<close>: \<open>swapcontext\<close> returns 0 when the context is resumed,
  so the body runs then.
\<close>

definition run_once :: "call list \<Rightarrow> world \<Rightarrow> outcome" where
  "run_once body w =
     (if coroutine_finished w \<noteq> 0 then Inr (w, [])
      else Inr (w\<lparr>coroutine_finished := 1\<rparr>, Swapcontext Main_context Coroutine_context # body))"

section \<open>Calling\<close>

text \<open>\<open>print\<close>: one line on \<open>std::cout\<close>.\<close>

definition print :: "string \<Rightarrow> int32 \<Rightarrow> world \<Rightarrow> outcome" where
  "print name a w = Inr (w\<lparr>cout := cout w @ [(name, a)]\<rparr>, [])"

text \<open>
  Calling a closure. \<open>boost::bind\<close> drops the arguments its placeholders do not name, so
  a closure without \<open>_1\<close> serves as \<open>void(T)\<close> and as \<open>void()\<close>.
\<close>

fun invoke :: "closure \<Rightarrow> int32 option \<Rightarrow> world \<Rightarrow> outcome" where
  "invoke (Plus_step1 r b) (Some a) w = operator_plus_step1 r a b w"
| "invoke (Plus_step2 r) (Some b) w = operator_plus_step2 r b w"
| "invoke (One_ready j) _ w = one_ready j w"
| "invoke Async_continue _ w = async_continue w"
| "invoke (Print name) (Some a) w = print name a w"
| "invoke (Print_val name a) _ w = print name a w"
| "invoke (Bind_on_ready p cb) _ w = Inr (w, [Lazy_on_ready p cb])"
| "invoke _ _ w = Inl Ill_typed"

text \<open>
  One call on top of the stack \<open>rest\<close>: the new state and the new stack. A call is
  synchronous: the calls it makes run before the call that follows it, so they go on top
  of the stack. \<open>swapcontext\<close> and the return of the coroutine function replace the stack.
\<close>

definition call_then :: "call list \<Rightarrow> outcome \<Rightarrow> outcome" where
  "call_then rest r = (case r of Inl e \<Rightarrow> Inl e | Inr (w, nested) \<Rightarrow> Inr (w, nested @ rest))"

fun step :: "call \<Rightarrow> call list \<Rightarrow> world \<Rightarrow> outcome" where
  "step (Invoke cb arg) rest w = call_then rest (invoke cb arg w)"
| "step (Lazy_on_ready p cb) rest w = call_then rest (on_ready p cb w)"
| "step (Lazy_on_fail p cb) rest w = call_then rest (on_fail p cb w)"
| "step (Lazy_emit_ready p) rest w = call_then rest (emit_ready p w)"
| "step (Lazy_emit_fail p) rest w = call_then rest (emit_fail p w)"
| "step (Lazy_assign p v) rest w = call_then rest (assign p v w)"
| "step (Lazy_plus a b) rest w = call_then rest (operator_plus a b w)"
| "step Lazy_new rest w = call_then rest (Lazy_empty w)"
| "step (Lazy_from_value v) rest w = call_then rest (Lazy_value v w)"
| "step Wait_new rest w = call_then rest (Wait_empty w)"
| "step (Wait_watch j p) rest w = call_then rest (watch j p w)"
| "step (Wait_run j job) rest w = call_then rest (run j job w)"
| "step Flow_off_end rest w = flow_off_end w"
| "step (Swapcontext oucp ucp) rest w = swapcontext oucp ucp rest w"
| "step (Coroutine (Async_wait name p k)) rest w = call_then rest (do_async_wait name p k w)"
| "step (Coroutine (Print_line name a r)) rest w = call_then (Coroutine r # rest) (print name a w)"
| "step (Coroutine Return) rest w = coroutine_return w"
| "step (Async_wait_return p k) rest w = call_then rest (async_wait_return p k w)"
| "step (START_COROUTINE_AND_RUN_ONCE r body) rest w = start_coroutine r body rest w"
| "step (Run_once body) rest w = call_then rest (run_once body w)"

text \<open>
  Running a sequence of calls, to the end or to the first error: a failed assertion aborts
  the program, and the other errors leave it without a run to follow. A closure can
  call back into the cell that fires it without end, so the function is partial:
  \<open>None\<close> is a run that does not return.
\<close>

partial_function (option) exec :: "call list \<Rightarrow> world \<Rightarrow> (error + world) option" where
  "exec cs w =
     (case cs of
        [] \<Rightarrow> Some (Inr w)
      | c # rest \<Rightarrow>
          (case step c rest w of
             Inl e \<Rightarrow> Some (Inl e)
           | Inr (w', stack) \<Rightarrow> exec stack w'))"

text \<open>The program before it has made any object.\<close>

definition world0 :: world where
  "world0 = \<lparr>cells = [], waits = [], cout = [], coroutine_finished = 0,
             return_context = None, main_context = None, coroutine_context = None\<rparr>"

section \<open>Clients\<close>

text \<open>
  Client closures and client programs for the statements below. The callback of an item
  \<open>(name, late)\<close> prints its argument under \<open>name\<close>, directly when \<open>late\<close> is
  false; when \<open>late\<close> is true it is a closure that registers that printing callback on
  the cell \<open>p\<close>.
\<close>

definition client_callback :: "nat \<Rightarrow> string \<times> bool \<Rightarrow> closure" where
  "client_callback p item =
     (if snd item then Bind_on_ready p (Print (fst item)) else Print (fst item))"

text \<open>A job or a fail callback that writes the line \<open>line\<close>.\<close>

definition print_job :: "string \<times> int32 \<Rightarrow> closure" where
  "print_job line = Print_val (fst line) (snd line)"

text \<open>A client that makes the calls \<open>cs\<close> and then reads the cell with \<open>get\<close>.\<close>

definition then_get :: "call list \<Rightarrow> nat \<Rightarrow> world \<Rightarrow> (error + int32) option" where
  "then_get cs p w =
     (case exec cs w of
        None \<Rightarrow> None
      | Some (Inl e) \<Rightarrow> Some (Inl e)
      | Some (Inr w') \<Rightarrow> Some (get p w'))"

text \<open>What the calls \<open>cs\<close> leave on \<open>std::cout\<close>, and the cell \<open>p\<close> as they leave it.\<close>

definition output_of :: "call list \<Rightarrow> world \<Rightarrow> (error + (string \<times> int32) list) option" where
  "output_of cs w =
     (case exec cs w of
        None \<Rightarrow> None
      | Some (Inl e) \<Rightarrow> Some (Inl e)
      | Some (Inr w') \<Rightarrow> Some (Inr (cout w')))"

definition cell_after :: "call list \<Rightarrow> nat \<Rightarrow> world \<Rightarrow> (error + Impl) option" where
  "cell_after cs p w =
     (case exec cs w of
        None \<Rightarrow> None
      | Some (Inl e) \<Rightarrow> Some (Inl e)
      | Some (Inr w') \<Rightarrow>
          (case cell_at w' p of None \<Rightarrow> Some (Inl Bad_handle) | Some x \<Rightarrow> Some (Inr x)))"

text \<open>
  The client \<open>Wait w; Lazy<int> f1, f2; w(f1); w(f2); w.run(job);\<close> where \<open>j\<close>, \<open>f\<close>
  and \<open>Suc f\<close> are the handles the three constructors return.
\<close>

definition two_watched :: "nat \<Rightarrow> nat \<Rightarrow> closure \<Rightarrow> call list" where
  "two_watched j f job =
     [Wait_new, Lazy_new, Lazy_new, Wait_watch j f, Wait_watch j (Suc f), Wait_run j job]"

text \<open>
  The coroutine function \<open>x = __async_wait(A); print("x", x); y = __async_wait(B);
  print("y", y); print("result", x + y);\<close> and the value of \<open>coroutine_finished\<close> after
  the calls \<open>cs\<close>.
\<close>

definition sum_routine :: "nat \<Rightarrow> nat \<Rightarrow> routine" where
  "sum_routine A B =
     Async_wait ''A'' A (\<lambda>x. Print_line ''x'' x
       (Async_wait ''B'' B (\<lambda>y. Print_line ''y'' y
         (Print_line ''result'' (x + y) Return))))"

definition finished_after :: "call list \<Rightarrow> world \<Rightarrow> (error + int32) option" where
  "finished_after cs w =
     (case exec cs w of
        None \<Rightarrow> None
      | Some (Inl e) \<Rightarrow> Some (Inl e)
      | Some (Inr w') \<Rightarrow> Some (Inr (coroutine_finished w')))"

text \<open>
  No cell of \<open>w\<close> has gone, and none that was ready or failed in \<open>w\<close> is pending in \<open>w'\<close>.
\<close>

definition stays_terminal :: "world \<Rightarrow> world \<Rightarrow> bool" where
  "stays_terminal w w' \<longleftrightarrow>
     length (cells w) \<le> length (cells w') \<and>
     (\<forall>q < length (cells w).
        m_state (cells w ! q) \<noteq> LAZY_NOT_READY \<longrightarrow> m_state (cells w' ! q) \<noteq> LAZY_NOT_READY)"

text \<open>No cell of \<open>w\<close> is failed.\<close>

definition none_failed :: "world \<Rightarrow> bool" where
  "none_failed w \<longleftrightarrow> (\<forall>q < length (cells w). m_state (cells w ! q) \<noteq> LAZY_FAIL)"

section \<open>Running calls\<close>

lemma exec_Nil [simp]: "exec [] w = Some (Inr w)"
  by (subst exec.simps) simp

lemma exec_Cons [simp]:
  "exec (c # rest) w =
     (case step c rest w of Inl e \<Rightarrow> Some (Inl e) | Inr (w', stack) \<Rightarrow> exec stack w')"
  by (subst exec.simps) simp

lemma call_then_simps [simp]:
  "call_then rest (Inl e) = Inl e"
  "call_then rest (Inr (w, nested)) = Inr (w, nested @ rest)"
  by (simp_all add: call_then_def)

lemma cell_at_Some: "cell_at w p = Some x \<longleftrightarrow> p < length (cells w) \<and> cells w ! p = x"
  by (auto simp: cell_at_def)

lemma wait_at_Some: "wait_at w j = Some x \<longleftrightarrow> j < length (waits w) \<and> waits w ! j = x"
  by (auto simp: wait_at_def)

text \<open>Updates of a record commute; the simplifier keeps them in the order of the fields.\<close>

lemma Impl_update_order [simp]:
  "m_state_update f (m_value_update g x) = m_value_update g (m_state_update f x)"
  "m_state_update f (m_ready_callbacks_update h x) = m_ready_callbacks_update h (m_state_update f x)"
  "m_state_update f (m_fail_callbacks_update h x) = m_fail_callbacks_update h (m_state_update f x)"
  "m_value_update g (m_ready_callbacks_update h x) = m_ready_callbacks_update h (m_value_update g x)"
  "m_value_update g (m_fail_callbacks_update h x) = m_fail_callbacks_update h (m_value_update g x)"
  "m_ready_callbacks_update h (m_fail_callbacks_update k x) =
     m_fail_callbacks_update k (m_ready_callbacks_update h x)"
  by (cases x; simp)+

lemma Wait_update_order [simp]:
  "m_counter_update f (m_jobs_update g y) = m_jobs_update g (m_counter_update f y)"
  by (cases y) simp

lemma world_update_order [simp]:
  "cells_update f (waits_update g w) = waits_update g (cells_update f w)"
  "cells_update f (cout_update h w) = cout_update h (cells_update f w)"
  "waits_update g (cout_update h w) = cout_update h (waits_update g w)"
  by (cases w; simp)+

text \<open>
  Firing a list of client callbacks on a cell that is already ready: each one writes its
  line, in order; the late ones are connected on the way and called right there.
\<close>

lemma fire_client_callbacks:
  "p < length (cells w) \<Longrightarrow> m_state (cells w ! p) = LAZY_READY \<Longrightarrow> m_value (cells w ! p) = v \<Longrightarrow>
   exec (map (\<lambda>cb. Invoke cb (Some v)) (map (client_callback p) items) @ rest) w =
   exec rest
     (w\<lparr>cells := (cells w)[p := (cells w ! p)\<lparr>m_ready_callbacks :=
                  m_ready_callbacks (cells w ! p) @ map (\<lambda>i. Print (fst i)) (filter snd items)\<rparr>],
        cout := cout w @ map (\<lambda>i. (fst i, v)) items\<rparr>)"
proof (induction items arbitrary: w)
  case Nil
  then show ?case by simp
next
  case (Cons i items)
  show ?case
  proof (cases "snd i")
    case False
    let ?w = "w\<lparr>cout := cout w @ [(fst i, v)]\<rparr>"
    have "exec (map (\<lambda>cb. Invoke cb (Some v)) (map (client_callback p) (i # items)) @ rest) w
        = exec (map (\<lambda>cb. Invoke cb (Some v)) (map (client_callback p) items) @ rest) ?w"
      using False by (simp add: client_callback_def print_def)
    also have "\<dots> = exec rest
     (?w\<lparr>cells := (cells ?w)[p := (cells ?w ! p)\<lparr>m_ready_callbacks :=
                  m_ready_callbacks (cells ?w ! p) @ map (\<lambda>i. Print (fst i)) (filter snd items)\<rparr>],
        cout := cout ?w @ map (\<lambda>i. (fst i, v)) items\<rparr>)"
      using Cons.prems by (intro Cons.IH) simp_all
    finally show ?thesis using False by simp
  next
    case True
    let ?x = "(cells w ! p)\<lparr>m_ready_callbacks := m_ready_callbacks (cells w ! p) @ [Print (fst i)]\<rparr>"
    let ?w = "w\<lparr>cells := (cells w)[p := ?x], cout := cout w @ [(fst i, v)]\<rparr>"
    have "exec (map (\<lambda>cb. Invoke cb (Some v)) (map (client_callback p) (i # items)) @ rest) w
        = exec (map (\<lambda>cb. Invoke cb (Some v)) (map (client_callback p) items) @ rest) ?w"
      using True Cons.prems
      by (simp add: client_callback_def print_def on_ready_def cell_at_def set_cell_def)
    also have "\<dots> = exec rest
     (?w\<lparr>cells := (cells ?w)[p := (cells ?w ! p)\<lparr>m_ready_callbacks :=
                  m_ready_callbacks (cells ?w ! p) @ map (\<lambda>i. Print (fst i)) (filter snd items)\<rparr>],
        cout := cout ?w @ map (\<lambda>i. (fst i, v)) items\<rparr>)"
      using Cons.prems by (intro Cons.IH) simp_all
    finally show ?thesis using True Cons.prems by simp
  qed
qed

text \<open>Firing printing callbacks: the lines appear in list order.\<close>

lemma fire_prints:
  "exec (map (\<lambda>cb. Invoke cb (Some v)) (map Print names) @ rest) w =
   exec rest (w\<lparr>cout := cout w @ map (\<lambda>n. (n, v)) names\<rparr>)"
  by (induction names arbitrary: w) (simp_all add: print_def)

lemma fire_prints_comp:
  "exec (map ((\<lambda>cb. Invoke cb (Some v)) \<circ> Print) names @ rest) w =
   exec rest (w\<lparr>cout := cout w @ map (\<lambda>n. (n, v)) names\<rparr>)"
  using fire_prints [of v names rest w] by simp

lemma fire_prints_comp_last:
  "exec (map ((\<lambda>cb. Invoke cb (Some v)) \<circ> Print) names) w =
   Some (Inr (w\<lparr>cout := cout w @ map (\<lambda>n. (n, v)) names\<rparr>))"
  using fire_prints [of v names "[]" w] by simp

lemma sint_add_in_range:
  "- (2 ^ 31) \<le> sint (x :: int32) + sint y \<Longrightarrow> sint x + sint y < 2 ^ 31 \<Longrightarrow>
   sint (x + y) = sint x + sint y"
  by (simp add: sint_word_ariths signed_take_bit_int_eq_self)

lemmas run_defs = Lazy_empty_def Lazy_value_def assign_def emit_ready_def emit_fail_def
  on_ready_def on_fail_def operator_plus_def operator_plus_step1_def operator_plus_step2_def
  Wait_empty_def watch_def run_def flow_off_end_def one_ready_def print_def Impl_new_def
  cell_at_def set_cell_def wait_at_def set_wait_def

lemmas sched_defs = context_of_def save_context_def swapcontext_def async_continue_def
  do_async_wait_def async_wait_return_def coroutine_return_def start_coroutine_def run_once_def
  get_def

text \<open>
  No function of the source writes \<open>LAZY_NOT_READY\<close> into a cell that exists, so no call,
  and no run that returns, takes a cell back to pending.
\<close>

lemma stays_terminal_refl: "stays_terminal w w"
  by (simp add: stays_terminal_def)

lemma stays_terminal_trans:
  "stays_terminal w w' \<Longrightarrow> stays_terminal w' w'' \<Longrightarrow> stays_terminal w w''"
  by (auto simp: stays_terminal_def)

lemma invoke_stays_terminal:
  "invoke cb arg w = Inr (w', nested) \<Longrightarrow> stays_terminal w w'"
  by (cases cb; cases arg)
     (auto simp: run_defs sched_defs stays_terminal_def nth_list_update
           split: option.splits if_splits)

lemma step_stays_terminal:
  assumes "step c rest w = Inr (w', stack)"
  shows "stays_terminal w w'"
proof (cases c)
  case (Invoke cb arg)
  with assms obtain nested where "invoke cb arg w = Inr (w', nested)"
    by (cases "invoke cb arg w") (auto simp: call_then_def)
  then show ?thesis by (rule invoke_stays_terminal)
next
  case (Coroutine r)
  with assms show ?thesis
    by (cases r)
       (auto simp: run_defs sched_defs call_then_def stays_terminal_def
             split: option.splits)
qed (use assms in \<open>auto simp: run_defs sched_defs call_then_def stays_terminal_def
          nth_list_update nth_append
          split: option.splits if_splits sum.splits context_name.splits\<close>)

lemma exec_stays_terminal:
  assumes "exec cs w = Some (Inr w')"
  shows "stays_terminal w w'"
proof -
  have "\<forall>w'. r = Inr w' \<longrightarrow> stays_terminal w w'" if run: "exec cs w = Some r" for r
  proof (rule exec.raw_induct
      [where P = "\<lambda>cs w r. \<forall>w'. r = Inr w' \<longrightarrow> stays_terminal w w'", OF _ run])
    fix f :: "call list \<Rightarrow> world \<Rightarrow> (error + world) option"
      and cs :: "call list" and w :: world and r :: "error + world"
    assume IH: "\<And>cs w r. f cs w = Some r \<Longrightarrow> \<forall>w'. r = Inr w' \<longrightarrow> stays_terminal w w'"
    assume eq: "(case cs of [] \<Rightarrow> Some (Inr w)
                 | c # rest \<Rightarrow>
                     (case step c rest w of
                        Inl e \<Rightarrow> Some (Inl e)
                      | Inr (w', stack) \<Rightarrow> f stack w')) = Some r"
    show "\<forall>w'. r = Inr w' \<longrightarrow> stays_terminal w w'"
    proof (cases cs)
      case Nil
      with eq show ?thesis by (auto simp: stays_terminal_refl)
    next
      case (Cons c rest)
      show ?thesis
      proof (cases "step c rest w")
        case (Inl e)
        with eq Cons show ?thesis by auto
      next
        case (Inr a)
        obtain w1 stack where a: "a = (w1, stack)" by (cases a)
        from eq Cons Inr a have "f stack w1 = Some r" by simp
        then have "\<forall>w'. r = Inr w' \<longrightarrow> stays_terminal w1 w'" by (rule IH)
        moreover from Inr a have "stays_terminal w w1"
          by (auto dest: step_stays_terminal)
        ultimately show ?thesis by (blast intro: stays_terminal_trans)
      qed
    qed
  qed
  with assms show ?thesis by blast
qed

text \<open>
  \<open>emit_fail\<close> is the one function of the source that writes \<open>LAZY_FAIL\<close>, and no call of
  it has a run: no call, and no run that returns, makes a cell failed.
\<close>

lemma invoke_none_failed:
  "invoke cb arg w = Inr (w', nested) \<Longrightarrow> none_failed w \<Longrightarrow> none_failed w'"
  by (cases cb; cases arg)
     (auto simp: run_defs sched_defs none_failed_def nth_list_update
           split: option.splits if_splits)

lemma step_none_failed:
  assumes "step c rest w = Inr (w', stack)" and "none_failed w"
  shows "none_failed w'"
proof (cases c)
  case (Invoke cb arg)
  with assms obtain nested where "invoke cb arg w = Inr (w', nested)"
    by (cases "invoke cb arg w") (auto simp: call_then_def)
  with assms(2) show ?thesis by (rule invoke_none_failed [rotated])
next
  case (Coroutine r)
  with assms show ?thesis
    by (cases r)
       (auto simp: run_defs sched_defs call_then_def none_failed_def
             split: option.splits)
qed (use assms in \<open>auto simp: run_defs sched_defs call_then_def none_failed_def
          nth_list_update nth_append less_Suc_eq
          split: option.splits if_splits sum.splits context_name.splits\<close>)

lemma exec_none_failed:
  assumes "exec cs w = Some (Inr w')" and "none_failed w"
  shows "none_failed w'"
proof -
  have "\<forall>w'. r = Inr w' \<longrightarrow> none_failed w \<longrightarrow> none_failed w'" if run: "exec cs w = Some r" for r
  proof (rule exec.raw_induct
      [where P = "\<lambda>cs w r. \<forall>w'. r = Inr w' \<longrightarrow> none_failed w \<longrightarrow> none_failed w'", OF _ run])
    fix f :: "call list \<Rightarrow> world \<Rightarrow> (error + world) option"
      and cs :: "call list" and w :: world and r :: "error + world"
    assume IH: "\<And>cs w r. f cs w = Some r \<Longrightarrow>
                  \<forall>w'. r = Inr w' \<longrightarrow> none_failed w \<longrightarrow> none_failed w'"
    assume eq: "(case cs of [] \<Rightarrow> Some (Inr w)
                 | c # rest \<Rightarrow>
                     (case step c rest w of
                        Inl e \<Rightarrow> Some (Inl e)
                      | Inr (w', stack) \<Rightarrow> f stack w')) = Some r"
    show "\<forall>w'. r = Inr w' \<longrightarrow> none_failed w \<longrightarrow> none_failed w'"
    proof (cases cs)
      case Nil
      with eq show ?thesis by auto
    next
      case (Cons c rest)
      show ?thesis
      proof (cases "step c rest w")
        case (Inl e)
        with eq Cons show ?thesis by auto
      next
        case (Inr a)
        obtain w1 stack where a: "a = (w1, stack)" by (cases a)
        from eq Cons Inr a have "f stack w1 = Some r" by simp
        then have "\<forall>w'. r = Inr w' \<longrightarrow> none_failed w1 \<longrightarrow> none_failed w'" by (rule IH)
        moreover from Inr a have "none_failed w \<longrightarrow> none_failed w1"
          by (auto dest: step_none_failed)
        ultimately show ?thesis by blast
      qed
    qed
  qed
  with assms show ?thesis by blast
qed

section \<open>Resolving a cell\<close>

text \<open>
  C1. Resolving a pending cell with a value (\<open>operator=\<close>) stores the value, sets the
  state to ready and then calls the callbacks that were connected at that moment, whatever
  they are, in the order of their registration, each with the value, before the call that
  follows the resolution. With the callbacks of the items, the lines written are the
  items' names in order, each with the value and each once: a callback that one of them
  registers on the cell meanwhile (a late item) is connected behind the others and called
  at once by \<open>on_ready\<close>, since the cell is ready by then; the firing list of this
  resolution does not call it again.
\<close>

theorem resolve_fires_snapshot_in_order:
  assumes "cell_at w p = Some x"
    and "m_state x = LAZY_NOT_READY"
  shows "exec (Lazy_assign p v # rest) w =
         exec (map (\<lambda>cb. Invoke cb (Some v)) (m_ready_callbacks x) @ rest)
           (w\<lparr>cells := (cells w)[p := x\<lparr>m_state := LAZY_READY, m_value := v\<rparr>]\<rparr>) \<and>
         (m_ready_callbacks x = map (client_callback p) items \<longrightarrow>
          exec [Lazy_assign p v] w =
          Some (Inr (w\<lparr>cells := (cells w)[p := x\<lparr>m_state := LAZY_READY, m_value := v,
                                    m_ready_callbacks := map (client_callback p) items
                                       @ map (\<lambda>i. Print (fst i)) (filter snd items)\<rparr>],
                       cout := cout w @ map (\<lambda>i. (fst i, v)) items\<rparr>)))"
proof -
  from assms(1) have p: "p < length (cells w)" and x: "cells w ! p = x"
    by (simp_all add: cell_at_Some)
  let ?w = "w\<lparr>cells := (cells w)[p := x\<lparr>m_state := LAZY_READY, m_value := v\<rparr>]\<rparr>"
  have fire: "exec (Lazy_assign p v # rest) w =
      exec (map (\<lambda>cb. Invoke cb (Some v)) (m_ready_callbacks x) @ rest) ?w" for rest
    using assms p by (simp add: assign_def emit_ready_def cell_at_def set_cell_def)
  have "exec [Lazy_assign p v] w =
          Some (Inr (w\<lparr>cells := (cells w)[p := x\<lparr>m_state := LAZY_READY, m_value := v,
                                    m_ready_callbacks := map (client_callback p) items
                                       @ map (\<lambda>i. Print (fst i)) (filter snd items)\<rparr>],
                       cout := cout w @ map (\<lambda>i. (fst i, v)) items\<rparr>))"
    if cbs: "m_ready_callbacks x = map (client_callback p) items"
  proof -
    have "exec [Lazy_assign p v] w
        = exec (map (\<lambda>cb. Invoke cb (Some v)) (map (client_callback p) items) @ []) ?w"
      using fire [of "[]"] cbs by simp
    also have "\<dots> = exec []
       (?w\<lparr>cells := (cells ?w)[p := (cells ?w ! p)\<lparr>m_ready_callbacks :=
                    m_ready_callbacks (cells ?w ! p) @ map (\<lambda>i. Print (fst i)) (filter snd items)\<rparr>],
          cout := cout ?w @ map (\<lambda>i. (fst i, v)) items\<rparr>)"
      using p by (intro fire_client_callbacks) simp_all
    finally show ?thesis using p cbs by simp
  qed
  with fire [of rest] show ?thesis by blast
qed

theorem resolve_fires_snapshot_in_order_witness:
  "exec [Lazy_assign 0 10]
     (world0\<lparr>cells := [\<lparr>m_state = LAZY_NOT_READY, m_value = 0,
                m_ready_callbacks = [Print ''c1'', Bind_on_ready 0 (Print ''c2''), Print ''c3''],
                m_fail_callbacks = []\<rparr>], waits := [], cout := []\<rparr>) =
   Some (Inr (world0\<lparr>cells := [\<lparr>m_state = LAZY_READY, m_value = 10,
                m_ready_callbacks = [Print ''c1'', Bind_on_ready 0 (Print ''c2''), Print ''c3'', Print ''c2''],
                m_fail_callbacks = []\<rparr>], waits := [],
                cout := [(''c1'', 10), (''c2'', 10), (''c3'', 10)]\<rparr>))"
  using resolve_fires_snapshot_in_order [of
     "world0\<lparr>cells := [\<lparr>m_state = LAZY_NOT_READY, m_value = 0,
                m_ready_callbacks = [Print ''c1'', Bind_on_ready 0 (Print ''c2''), Print ''c3''],
                m_fail_callbacks = []\<rparr>], waits := [], cout := []\<rparr>" 0
     "\<lparr>m_state = LAZY_NOT_READY, m_value = 0,
                m_ready_callbacks = [Print ''c1'', Bind_on_ready 0 (Print ''c2''), Print ''c3''],
                m_fail_callbacks = []\<rparr>"
     10 "[]" "[(''c1'', False), (''c2'', True), (''c3'', False)]"]
  by (simp add: world0_def run_defs client_callback_def)

text \<open>
  C2. \<open>operator=\<close> on a cell that is ready or failed fails its assertion, and no run
  that returns takes a cell that was ready or failed back to pending. A second resolution
  is rejected by that assertion only: \<open>emit_ready\<close> has no check, and on a cell that
  \<open>operator=\<close> has resolved it runs to the end and calls the callbacks a second time,
  where the same second resolution through \<open>operator=\<close> fails the assertion. The second
  step of \<open>operator+\<close> goes through \<open>emit_ready\<close> as well: a result cell the client has
  resolved with 7 is resolved again with the sum, and its observer is called with 7 and
  then with 15.
\<close>

theorem second_resolution_rejected_by_assignment_only:
  "(cell_at w p = Some x \<and> m_state x \<noteq> LAZY_NOT_READY \<longrightarrow>
      exec (Lazy_assign p v # rest) w = Some (Inl Assertion_failed)) \<and>
   (exec cs w = Some (Inr w') \<longrightarrow> stays_terminal w w') \<and>
   exec [Lazy_new, Lazy_on_ready 0 (Print ''cb''), Lazy_assign 0 10, Lazy_emit_ready 0] world0 =
   Some (Inr (world0\<lparr>cells := [\<lparr>m_state = LAZY_READY, m_value = 10,
                                  m_ready_callbacks = [Print ''cb''], m_fail_callbacks = []\<rparr>],
                      cout := [(''cb'', 10), (''cb'', 10)]\<rparr>)) \<and>
   exec [Lazy_new, Lazy_on_ready 0 (Print ''cb''), Lazy_assign 0 10, Lazy_assign 0 10] world0 =
   Some (Inl Assertion_failed) \<and>
   exec [Lazy_new, Lazy_new, Lazy_plus 0 1, Lazy_on_ready 2 (Print ''r''),
         Lazy_assign 2 7, Lazy_assign 0 10, Lazy_assign 1 5] world0 =
   Some (Inr (world0\<lparr>cells := [\<lparr>m_state = LAZY_READY, m_value = 10,
                                  m_ready_callbacks = [Plus_step1 2 1], m_fail_callbacks = []\<rparr>,
                                 \<lparr>m_state = LAZY_READY, m_value = 5,
                                  m_ready_callbacks = [Plus_step2 2], m_fail_callbacks = []\<rparr>,
                                 \<lparr>m_state = LAZY_READY, m_value = 15,
                                  m_ready_callbacks = [Print ''r''], m_fail_callbacks = []\<rparr>],
                      cout := [(''r'', 7), (''r'', 15)]\<rparr>))"
proof -
  have rejected: "exec (Lazy_assign p v # rest) w = Some (Inl Assertion_failed)"
    if "cell_at w p = Some x" and "m_state x \<noteq> LAZY_NOT_READY"
    using that by (simp add: assign_def)
  have runs: "exec [Lazy_new, Lazy_on_ready 0 (Print ''cb''), Lazy_assign 0 10, Lazy_emit_ready 0] world0 =
   Some (Inr (world0\<lparr>cells := [\<lparr>m_state = LAZY_READY, m_value = 10,
                                  m_ready_callbacks = [Print ''cb''], m_fail_callbacks = []\<rparr>],
                      cout := [(''cb'', 10), (''cb'', 10)]\<rparr>)) \<and>
   exec [Lazy_new, Lazy_on_ready 0 (Print ''cb''), Lazy_assign 0 10, Lazy_assign 0 10] world0 =
   Some (Inl Assertion_failed) \<and>
   exec [Lazy_new, Lazy_new, Lazy_plus 0 1, Lazy_on_ready 2 (Print ''r''),
         Lazy_assign 2 7, Lazy_assign 0 10, Lazy_assign 1 5] world0 =
   Some (Inr (world0\<lparr>cells := [\<lparr>m_state = LAZY_READY, m_value = 10,
                                  m_ready_callbacks = [Plus_step1 2 1], m_fail_callbacks = []\<rparr>,
                                 \<lparr>m_state = LAZY_READY, m_value = 5,
                                  m_ready_callbacks = [Plus_step2 2], m_fail_callbacks = []\<rparr>,
                                 \<lparr>m_state = LAZY_READY, m_value = 15,
                                  m_ready_callbacks = [Print ''r''], m_fail_callbacks = []\<rparr>],
                      cout := [(''r'', 7), (''r'', 15)]\<rparr>))"
    by (simp add: world0_def run_defs)
  from rejected exec_stays_terminal runs show ?thesis by blast
qed

theorem second_resolution_rejected_by_assignment_only_witness:
  "exec [Lazy_assign 0 5]
     (world0\<lparr>cells := [\<lparr>m_state = LAZY_READY, m_value = 10, m_ready_callbacks = [],
                         m_fail_callbacks = []\<rparr>]\<rparr>) = Some (Inl Assertion_failed) \<and>
   stays_terminal
     (world0\<lparr>cells := [\<lparr>m_state = LAZY_READY, m_value = 10, m_ready_callbacks = [],
                         m_fail_callbacks = []\<rparr>]\<rparr>)
     (world0\<lparr>cells := [\<lparr>m_state = LAZY_READY, m_value = 10, m_ready_callbacks = [],
                         m_fail_callbacks = []\<rparr>,
                        \<lparr>m_state = LAZY_NOT_READY, m_value = 0, m_ready_callbacks = [],
                         m_fail_callbacks = []\<rparr>]\<rparr>)"
  using second_resolution_rejected_by_assignment_only [of
      "world0\<lparr>cells := [\<lparr>m_state = LAZY_READY, m_value = 10, m_ready_callbacks = [],
                         m_fail_callbacks = []\<rparr>]\<rparr>" 0
      "\<lparr>m_state = LAZY_READY, m_value = 10, m_ready_callbacks = [], m_fail_callbacks = []\<rparr>"
      5 "[]" "[Lazy_emit_ready 0, Lazy_new]"
      "world0\<lparr>cells := [\<lparr>m_state = LAZY_READY, m_value = 10, m_ready_callbacks = [],
                         m_fail_callbacks = []\<rparr>,
                        \<lparr>m_state = LAZY_NOT_READY, m_value = 0, m_ready_callbacks = [],
                         m_fail_callbacks = []\<rparr>]\<rparr>"]
  by (simp add: world0_def run_defs)

section \<open>Registering a callback\<close>

text \<open>
  C3. \<open>on_ready\<close> connects the callback, whatever it is, in every state, and on a cell
  that is ready it also calls it at once with the stored value, before the call that
  follows. So a printing callback registered on a ready cell writes its line one time,
  with the stored value, and stays in the list. On a pending cell whose callbacks print,
  \<open>on_ready\<close> only connects the callback; resolving the cell afterwards calls it one
  time, after the callbacks registered before it, with the resolved value.
\<close>

theorem on_ready_connects_and_calls:
  assumes "cell_at w p = Some x"
  shows "exec (Lazy_on_ready p cb # rest) w =
         exec ((if m_state x = LAZY_READY then [Invoke cb (Some (m_value x))] else []) @ rest)
           (w\<lparr>cells := (cells w)[p := x\<lparr>m_ready_callbacks := m_ready_callbacks x @ [cb]\<rparr>]\<rparr>) \<and>
         (m_state x = LAZY_READY \<longrightarrow>
            exec [Lazy_on_ready p (Print name)] w =
            Some (Inr (w\<lparr>cells := (cells w)[p := x\<lparr>m_ready_callbacks :=
                                        m_ready_callbacks x @ [Print name]\<rparr>],
                         cout := cout w @ [(name, m_value x)]\<rparr>))) \<and>
         (m_state x = LAZY_NOT_READY \<and> m_ready_callbacks x = map Print names \<longrightarrow>
            exec [Lazy_on_ready p (Print name)] w =
            Some (Inr (w\<lparr>cells := (cells w)[p := x\<lparr>m_ready_callbacks :=
                                        m_ready_callbacks x @ [Print name]\<rparr>]\<rparr>)) \<and>
            exec [Lazy_on_ready p (Print name), Lazy_assign p v] w =
            Some (Inr (w\<lparr>cells := (cells w)[p := x\<lparr>m_state := LAZY_READY, m_value := v,
                                        m_ready_callbacks := m_ready_callbacks x @ [Print name]\<rparr>],
                         cout := cout w @ map (\<lambda>n. (n, v)) (names @ [name])\<rparr>)))"
proof -
  from assms have p: "p < length (cells w)" and x: "cells w ! p = x"
    by (simp_all add: cell_at_Some)
  have ready: "exec [Lazy_on_ready p (Print name)] w =
            Some (Inr (w\<lparr>cells := (cells w)[p := x\<lparr>m_ready_callbacks :=
                                        m_ready_callbacks x @ [Print name]\<rparr>],
                         cout := cout w @ [(name, m_value x)]\<rparr>))"
    if "m_state x = LAZY_READY"
    using that assms by (simp add: on_ready_def set_cell_def print_def)
  have pending: "exec [Lazy_on_ready p (Print name)] w =
            Some (Inr (w\<lparr>cells := (cells w)[p := x\<lparr>m_ready_callbacks :=
                                        m_ready_callbacks x @ [Print name]\<rparr>]\<rparr>))"
    if "m_state x = LAZY_NOT_READY"
    using that assms by (simp add: on_ready_def set_cell_def)
  have resolved: "exec [Lazy_on_ready p (Print name), Lazy_assign p v] w =
            Some (Inr (w\<lparr>cells := (cells w)[p := x\<lparr>m_state := LAZY_READY, m_value := v,
                                        m_ready_callbacks := m_ready_callbacks x @ [Print name]\<rparr>],
                         cout := cout w @ map (\<lambda>n. (n, v)) (names @ [name])\<rparr>))"
    if "m_state x = LAZY_NOT_READY" and cbs: "m_ready_callbacks x = map Print names"
  proof -
    have "exec [Lazy_on_ready p (Print name), Lazy_assign p v] w =
          exec (map (\<lambda>cb. Invoke cb (Some v)) (map Print (names @ [name])) @ [])
            (w\<lparr>cells := (cells w)[p := x\<lparr>m_state := LAZY_READY, m_value := v,
                                        m_ready_callbacks := m_ready_callbacks x @ [Print name]\<rparr>]\<rparr>)"
      using that assms p
      by (simp add: on_ready_def assign_def emit_ready_def set_cell_def cell_at_def)
    then show ?thesis
      by (simp only: fire_prints) simp
  qed
  have any: "exec (Lazy_on_ready p cb # rest) w =
         exec ((if m_state x = LAZY_READY then [Invoke cb (Some (m_value x))] else []) @ rest)
           (w\<lparr>cells := (cells w)[p := x\<lparr>m_ready_callbacks := m_ready_callbacks x @ [cb]\<rparr>]\<rparr>)"
    using assms by (simp add: on_ready_def set_cell_def)
  from any ready pending resolved show ?thesis by blast
qed

theorem on_ready_connects_and_calls_witness:
  "exec [Lazy_on_ready 0 (Print ''late'')]
     (world0\<lparr>cells := [\<lparr>m_state = LAZY_READY, m_value = 7, m_ready_callbacks = [Print ''early''],
                m_fail_callbacks = []\<rparr>], waits := [], cout := []\<rparr>) =
   Some (Inr (world0\<lparr>cells := [\<lparr>m_state = LAZY_READY, m_value = 7,
                m_ready_callbacks = [Print ''early'', Print ''late''],
                m_fail_callbacks = []\<rparr>], waits := [], cout := [(''late'', 7)]\<rparr>)) \<and>
   exec [Lazy_on_ready 0 (Print ''late''), Lazy_assign 0 7]
     (world0\<lparr>cells := [\<lparr>m_state = LAZY_NOT_READY, m_value = 0, m_ready_callbacks = [Print ''early''],
                m_fail_callbacks = []\<rparr>], waits := [], cout := []\<rparr>) =
   Some (Inr (world0\<lparr>cells := [\<lparr>m_state = LAZY_READY, m_value = 7,
                m_ready_callbacks = [Print ''early'', Print ''late''],
                m_fail_callbacks = []\<rparr>], waits := [], cout := [(''early'', 7), (''late'', 7)]\<rparr>))"
  using on_ready_connects_and_calls [of
     "world0\<lparr>cells := [\<lparr>m_state = LAZY_READY, m_value = 7, m_ready_callbacks = [Print ''early''],
                m_fail_callbacks = []\<rparr>], waits := [], cout := []\<rparr>" 0
     "\<lparr>m_state = LAZY_READY, m_value = 7, m_ready_callbacks = [Print ''early''],
                m_fail_callbacks = []\<rparr>" "Print ''late''" "[]" "''late''" "[]" 0]
    on_ready_connects_and_calls [of
     "world0\<lparr>cells := [\<lparr>m_state = LAZY_NOT_READY, m_value = 0, m_ready_callbacks = [Print ''early''],
                m_fail_callbacks = []\<rparr>], waits := [], cout := []\<rparr>" 0
     "\<lparr>m_state = LAZY_NOT_READY, m_value = 0, m_ready_callbacks = [Print ''early''],
                m_fail_callbacks = []\<rparr>" "Print ''late''" "[]" "''late''" "[''early'']" 7]
  by (simp add: world0_def run_defs)

text \<open>
  On a ready cell the callback is not called instead of being appended: after the call the
  list of the cell holds it.
\<close>

theorem on_ready_instead_of_appending_counterexample:
  "exec [Lazy_from_value 7, Lazy_on_ready 0 (Print ''cb'')] world0 =
   Some (Inr (world0\<lparr>cells := [\<lparr>m_state = LAZY_READY, m_value = 7, m_ready_callbacks = [Print ''cb''],
                         m_fail_callbacks = []\<rparr>],
              waits := [], cout := [(''cb'', 7)]\<rparr>))"
  by (simp add: world0_def Lazy_value_def emit_ready_def on_ready_def print_def
      cell_at_def set_cell_def Impl_new_def)

section \<open>Binary compose\<close>

text \<open>
  C4. For two different cells \<open>a\<close> and \<open>b\<close> whose callbacks print, \<open>a + b\<close> is a
  new cell that becomes ready with the sum of the two values (the 32-bit sum): at once
  when both are ready at construction, and otherwise as soon as both have been resolved,
  in either order, or the pending one has, when the other was ready at construction.
  Before that the new cell is pending (it holds the value of \<open>a\<close> as intermediate once
  \<open>a\<close> is resolved). \<open>b\<close> gets the second step as callback only when \<open>a\<close> is
  resolved: constructing the sum, or resolving \<open>b\<close> first, leaves the callbacks of \<open>b\<close>
  as they were.
\<close>

theorem plus_resolves_to_sum:
  assumes "cell_at w a = Some xa" and "cell_at w b = Some xb" and "a \<noteq> b"
    and "m_ready_callbacks xa = map Print na" and "m_ready_callbacks xb = map Print nb"
  shows "(m_state xa = LAZY_READY \<and> m_state xb = LAZY_READY \<longrightarrow>
            cell_after [Lazy_plus a b] (length (cells w)) w =
              Some (Inr \<lparr>m_state = LAZY_READY, m_value = m_value xa + m_value xb,
                         m_ready_callbacks = [], m_fail_callbacks = []\<rparr>)) \<and>
         (m_state xa = LAZY_READY \<and> m_state xb = LAZY_NOT_READY \<longrightarrow>
            cell_after [Lazy_plus a b] (length (cells w)) w =
              Some (Inr \<lparr>m_state = LAZY_NOT_READY, m_value = m_value xa,
                         m_ready_callbacks = [], m_fail_callbacks = []\<rparr>) \<and>
            cell_after [Lazy_plus a b, Lazy_assign b vb] (length (cells w)) w =
              Some (Inr \<lparr>m_state = LAZY_READY, m_value = m_value xa + vb,
                         m_ready_callbacks = [], m_fail_callbacks = []\<rparr>)) \<and>
         (m_state xa = LAZY_NOT_READY \<and> m_state xb = LAZY_READY \<longrightarrow>
            cell_after [Lazy_plus a b] (length (cells w)) w = Some (Inr Impl_new) \<and>
            cell_after [Lazy_plus a b, Lazy_assign a va] (length (cells w)) w =
              Some (Inr \<lparr>m_state = LAZY_READY, m_value = va + m_value xb,
                         m_ready_callbacks = [], m_fail_callbacks = []\<rparr>)) \<and>
         (m_state xa = LAZY_NOT_READY \<and> m_state xb = LAZY_NOT_READY \<longrightarrow>
            cell_after [Lazy_plus a b] (length (cells w)) w = Some (Inr Impl_new) \<and>
            cell_after [Lazy_plus a b] b w = Some (Inr xb) \<and>
            cell_after [Lazy_plus a b, Lazy_assign a va] (length (cells w)) w =
              Some (Inr \<lparr>m_state = LAZY_NOT_READY, m_value = va,
                         m_ready_callbacks = [], m_fail_callbacks = []\<rparr>) \<and>
            cell_after [Lazy_plus a b, Lazy_assign a va] b w =
              Some (Inr (xb\<lparr>m_ready_callbacks := map Print nb @ [Plus_step2 (length (cells w))]\<rparr>)) \<and>
            cell_after [Lazy_plus a b, Lazy_assign a va, Lazy_assign b vb] (length (cells w)) w =
              Some (Inr \<lparr>m_state = LAZY_READY, m_value = va + vb,
                         m_ready_callbacks = [], m_fail_callbacks = []\<rparr>) \<and>
            output_of [Lazy_plus a b, Lazy_assign a va, Lazy_assign b vb] w =
              Some (Inr (cout w @ map (\<lambda>n. (n, va)) na @ map (\<lambda>n. (n, vb)) nb)) \<and>
            cell_after [Lazy_plus a b, Lazy_assign b vb] (length (cells w)) w = Some (Inr Impl_new) \<and>
            cell_after [Lazy_plus a b, Lazy_assign b vb] b w =
              Some (Inr (xb\<lparr>m_state := LAZY_READY, m_value := vb\<rparr>)) \<and>
            cell_after [Lazy_plus a b, Lazy_assign b vb, Lazy_assign a va] (length (cells w)) w =
              Some (Inr \<lparr>m_state = LAZY_READY, m_value = va + vb,
                         m_ready_callbacks = [], m_fail_callbacks = []\<rparr>) \<and>
            output_of [Lazy_plus a b, Lazy_assign b vb, Lazy_assign a va] w =
              Some (Inr (cout w @ map (\<lambda>n. (n, vb)) nb @ map (\<lambda>n. (n, va)) na))) \<and>
         (- (2 ^ 31) \<le> sint va + sint vb \<and> sint va + sint vb < 2 ^ 31 \<longrightarrow>
            sint (va + vb) = sint va + sint vb)"
proof -
  from assms have a: "a < length (cells w)" "cells w ! a = xa"
    and b: "b < length (cells w)" "cells w ! b = xb"
    by (simp_all add: cell_at_Some)
  note facts = a b assms(3-5) assms(3)[symmetric]
  have sum: "- (2 ^ 31) \<le> sint va + sint vb \<and> sint va + sint vb < 2 ^ 31 \<longrightarrow>
            sint (va + vb) = sint va + sint vb"
    by (simp add: sint_add_in_range)
  have both_ready: "m_state xa = LAZY_READY \<and> m_state xb = LAZY_READY \<longrightarrow>
            cell_after [Lazy_plus a b] (length (cells w)) w =
              Some (Inr \<lparr>m_state = LAZY_READY, m_value = m_value xa + m_value xb,
                         m_ready_callbacks = [], m_fail_callbacks = []\<rparr>)"
    using facts
    by (simp add: cell_after_def run_defs fire_prints_comp fire_prints_comp_last nth_append)
  have a_ready: "m_state xa = LAZY_READY \<and> m_state xb = LAZY_NOT_READY \<longrightarrow>
            cell_after [Lazy_plus a b] (length (cells w)) w =
              Some (Inr \<lparr>m_state = LAZY_NOT_READY, m_value = m_value xa,
                         m_ready_callbacks = [], m_fail_callbacks = []\<rparr>) \<and>
            cell_after [Lazy_plus a b, Lazy_assign b vb] (length (cells w)) w =
              Some (Inr \<lparr>m_state = LAZY_READY, m_value = m_value xa + vb,
                         m_ready_callbacks = [], m_fail_callbacks = []\<rparr>)"
    using facts
    by (simp add: cell_after_def run_defs fire_prints_comp fire_prints_comp_last nth_append)
  have b_ready: "m_state xa = LAZY_NOT_READY \<and> m_state xb = LAZY_READY \<longrightarrow>
            cell_after [Lazy_plus a b] (length (cells w)) w = Some (Inr Impl_new) \<and>
            cell_after [Lazy_plus a b, Lazy_assign a va] (length (cells w)) w =
              Some (Inr \<lparr>m_state = LAZY_READY, m_value = va + m_value xb,
                         m_ready_callbacks = [], m_fail_callbacks = []\<rparr>)"
    using facts
    by (simp add: cell_after_def run_defs fire_prints_comp fire_prints_comp_last nth_append)
  have both_pending: "m_state xa = LAZY_NOT_READY \<and> m_state xb = LAZY_NOT_READY \<longrightarrow>
            cell_after [Lazy_plus a b] (length (cells w)) w = Some (Inr Impl_new) \<and>
            cell_after [Lazy_plus a b] b w = Some (Inr xb) \<and>
            cell_after [Lazy_plus a b, Lazy_assign a va] (length (cells w)) w =
              Some (Inr \<lparr>m_state = LAZY_NOT_READY, m_value = va,
                         m_ready_callbacks = [], m_fail_callbacks = []\<rparr>) \<and>
            cell_after [Lazy_plus a b, Lazy_assign a va] b w =
              Some (Inr (xb\<lparr>m_ready_callbacks := map Print nb @ [Plus_step2 (length (cells w))]\<rparr>)) \<and>
            cell_after [Lazy_plus a b, Lazy_assign a va, Lazy_assign b vb] (length (cells w)) w =
              Some (Inr \<lparr>m_state = LAZY_READY, m_value = va + vb,
                         m_ready_callbacks = [], m_fail_callbacks = []\<rparr>) \<and>
            output_of [Lazy_plus a b, Lazy_assign a va, Lazy_assign b vb] w =
              Some (Inr (cout w @ map (\<lambda>n. (n, va)) na @ map (\<lambda>n. (n, vb)) nb)) \<and>
            cell_after [Lazy_plus a b, Lazy_assign b vb] (length (cells w)) w = Some (Inr Impl_new) \<and>
            cell_after [Lazy_plus a b, Lazy_assign b vb] b w =
              Some (Inr (xb\<lparr>m_state := LAZY_READY, m_value := vb\<rparr>)) \<and>
            cell_after [Lazy_plus a b, Lazy_assign b vb, Lazy_assign a va] (length (cells w)) w =
              Some (Inr \<lparr>m_state = LAZY_READY, m_value = va + vb,
                         m_ready_callbacks = [], m_fail_callbacks = []\<rparr>) \<and>
            output_of [Lazy_plus a b, Lazy_assign b vb, Lazy_assign a va] w =
              Some (Inr (cout w @ map (\<lambda>n. (n, vb)) nb @ map (\<lambda>n. (n, va)) na))"
    using facts
    by (simp add: cell_after_def output_of_def run_defs fire_prints_comp fire_prints_comp_last
        nth_append)
  from both_ready a_ready b_ready both_pending sum show ?thesis
    by (intro conjI)
qed

theorem plus_resolves_to_sum_witness:
  "cell_after [Lazy_plus 0 1, Lazy_assign 0 10, Lazy_assign 1 5] 2
     (world0\<lparr>cells := [\<lparr>m_state = LAZY_NOT_READY, m_value = 0, m_ready_callbacks = [Print ''a''], m_fail_callbacks = []\<rparr>,
               \<lparr>m_state = LAZY_NOT_READY, m_value = 0, m_ready_callbacks = [Print ''b''], m_fail_callbacks = []\<rparr>],
      waits := [], cout := []\<rparr>) =
   Some (Inr \<lparr>m_state = LAZY_READY, m_value = 15, m_ready_callbacks = [], m_fail_callbacks = []\<rparr>) \<and>
   cell_after [Lazy_plus 0 1, Lazy_assign 1 5, Lazy_assign 0 10] 2
     (world0\<lparr>cells := [\<lparr>m_state = LAZY_NOT_READY, m_value = 0, m_ready_callbacks = [Print ''a''], m_fail_callbacks = []\<rparr>,
               \<lparr>m_state = LAZY_NOT_READY, m_value = 0, m_ready_callbacks = [Print ''b''], m_fail_callbacks = []\<rparr>],
      waits := [], cout := []\<rparr>) =
   Some (Inr \<lparr>m_state = LAZY_READY, m_value = 15, m_ready_callbacks = [], m_fail_callbacks = []\<rparr>) \<and>
   cell_after [Lazy_plus 0 1] 2
     (world0\<lparr>cells := [\<lparr>m_state = LAZY_READY, m_value = 10, m_ready_callbacks = [], m_fail_callbacks = []\<rparr>,
               \<lparr>m_state = LAZY_READY, m_value = 5, m_ready_callbacks = [], m_fail_callbacks = []\<rparr>],
      waits := [], cout := []\<rparr>) =
   Some (Inr \<lparr>m_state = LAZY_READY, m_value = 15, m_ready_callbacks = [], m_fail_callbacks = []\<rparr>) \<and>
   cell_after [Lazy_plus 0 1, Lazy_assign 1 5] 2
     (world0\<lparr>cells := [\<lparr>m_state = LAZY_READY, m_value = 10, m_ready_callbacks = [], m_fail_callbacks = []\<rparr>,
               \<lparr>m_state = LAZY_NOT_READY, m_value = 0, m_ready_callbacks = [], m_fail_callbacks = []\<rparr>],
      waits := [], cout := []\<rparr>) =
   Some (Inr \<lparr>m_state = LAZY_READY, m_value = 15, m_ready_callbacks = [], m_fail_callbacks = []\<rparr>) \<and>
   cell_after [Lazy_plus 0 1, Lazy_assign 0 10] 2
     (world0\<lparr>cells := [\<lparr>m_state = LAZY_NOT_READY, m_value = 0, m_ready_callbacks = [], m_fail_callbacks = []\<rparr>,
               \<lparr>m_state = LAZY_READY, m_value = 5, m_ready_callbacks = [], m_fail_callbacks = []\<rparr>],
      waits := [], cout := []\<rparr>) =
   Some (Inr \<lparr>m_state = LAZY_READY, m_value = 15, m_ready_callbacks = [], m_fail_callbacks = []\<rparr>) \<and>
   sint (10 + 5 :: int32) = 15"
  using plus_resolves_to_sum [of
     "world0\<lparr>cells := [\<lparr>m_state = LAZY_NOT_READY, m_value = 0, m_ready_callbacks = [Print ''a''], m_fail_callbacks = []\<rparr>,
               \<lparr>m_state = LAZY_NOT_READY, m_value = 0, m_ready_callbacks = [Print ''b''], m_fail_callbacks = []\<rparr>],
      waits := [], cout := []\<rparr>" 0
     "\<lparr>m_state = LAZY_NOT_READY, m_value = 0, m_ready_callbacks = [Print ''a''], m_fail_callbacks = []\<rparr>" 1
     "\<lparr>m_state = LAZY_NOT_READY, m_value = 0, m_ready_callbacks = [Print ''b''], m_fail_callbacks = []\<rparr>"
     "[''a'']" "[''b'']" 5 10]
   plus_resolves_to_sum [of
     "world0\<lparr>cells := [\<lparr>m_state = LAZY_READY, m_value = 10, m_ready_callbacks = [], m_fail_callbacks = []\<rparr>,
               \<lparr>m_state = LAZY_READY, m_value = 5, m_ready_callbacks = [], m_fail_callbacks = []\<rparr>],
      waits := [], cout := []\<rparr>" 0
     "\<lparr>m_state = LAZY_READY, m_value = 10, m_ready_callbacks = [], m_fail_callbacks = []\<rparr>" 1
     "\<lparr>m_state = LAZY_READY, m_value = 5, m_ready_callbacks = [], m_fail_callbacks = []\<rparr>"
     "[]" "[]" 5 10]
   plus_resolves_to_sum [of
     "world0\<lparr>cells := [\<lparr>m_state = LAZY_READY, m_value = 10, m_ready_callbacks = [], m_fail_callbacks = []\<rparr>,
               \<lparr>m_state = LAZY_NOT_READY, m_value = 0, m_ready_callbacks = [], m_fail_callbacks = []\<rparr>],
      waits := [], cout := []\<rparr>" 0
     "\<lparr>m_state = LAZY_READY, m_value = 10, m_ready_callbacks = [], m_fail_callbacks = []\<rparr>" 1
     "\<lparr>m_state = LAZY_NOT_READY, m_value = 0, m_ready_callbacks = [], m_fail_callbacks = []\<rparr>"
     "[]" "[]" 5 10]
   plus_resolves_to_sum [of
     "world0\<lparr>cells := [\<lparr>m_state = LAZY_NOT_READY, m_value = 0, m_ready_callbacks = [], m_fail_callbacks = []\<rparr>,
               \<lparr>m_state = LAZY_READY, m_value = 5, m_ready_callbacks = [], m_fail_callbacks = []\<rparr>],
      waits := [], cout := []\<rparr>" 0
     "\<lparr>m_state = LAZY_NOT_READY, m_value = 0, m_ready_callbacks = [], m_fail_callbacks = []\<rparr>" 1
     "\<lparr>m_state = LAZY_READY, m_value = 5, m_ready_callbacks = [], m_fail_callbacks = []\<rparr>"
     "[]" "[]" 5 10]
  by (simp add: world0_def cell_at_def numeral_2_eq_2)

section \<open>The join barrier at work\<close>

text \<open>
  C5. No call of \<open>run\<close> returns: the function flows off its end, which is undefined
  behaviour. On a barrier whose counter is not 0, where the body queues the job and calls
  nothing, that holds whatever the job is; on a barrier whose counter is 0 the body calls
  the job first, and a printing job returns to the end of \<open>run\<close>. So the client that
  queues a job on a new barrier with no future watched, and the client that watches two
  new futures and queues a job, have no defined run to their end, and no statement on
  when the job runs afterwards holds of them.
\<close>

theorem run_flows_off_its_end:
  "(wait_at w j = Some y \<and> m_counter y \<noteq> 0 \<longrightarrow>
      exec (Wait_run j queued # rest) w = Some (Inl Undefined_behaviour)) \<and>
   (wait_at w j = Some y \<and> m_counter y = 0 \<longrightarrow>
      exec (Wait_run j (print_job job) # rest) w = Some (Inl Undefined_behaviour)) \<and>
   exec (Wait_new # Wait_run (length (waits w)) (print_job job) # rest) w =
     Some (Inl Undefined_behaviour) \<and>
   exec (two_watched (length (waits w)) (length (cells w)) queued @ rest) w =
     Some (Inl Undefined_behaviour)"
  by (simp add: two_watched_def print_job_def run_defs nth_append)

theorem run_flows_off_its_end_witness:
  "exec [Wait_run 0 (Print_val ''job'' 1), Lazy_assign 0 5]
     (world0\<lparr>cells := [\<lparr>m_state = LAZY_NOT_READY, m_value = 0, m_ready_callbacks = [One_ready 0],
                         m_fail_callbacks = []\<rparr>],
             waits := [\<lparr>m_counter = 1, m_jobs = []\<rparr>]\<rparr>) = Some (Inl Undefined_behaviour) \<and>
   exec [Wait_run 0 (Print_val ''job'' 1)]
     (world0\<lparr>waits := [\<lparr>m_counter = 0, m_jobs = []\<rparr>]\<rparr>) = Some (Inl Undefined_behaviour) \<and>
   exec (two_watched 0 0 (Print_val ''job'' 1) @ [Lazy_assign 0 10, Lazy_assign 1 5]) world0 =
     Some (Inl Undefined_behaviour)"
  using run_flows_off_its_end [of
      "world0\<lparr>cells := [\<lparr>m_state = LAZY_NOT_READY, m_value = 0, m_ready_callbacks = [One_ready 0],
                         m_fail_callbacks = []\<rparr>],
             waits := [\<lparr>m_counter = 1, m_jobs = []\<rparr>]\<rparr>" 0
      "\<lparr>m_counter = 1, m_jobs = []\<rparr>" "Print_val ''job'' 1" "[Lazy_assign 0 5]" "(''job'', 1)"]
    run_flows_off_its_end [of
      "world0\<lparr>waits := [\<lparr>m_counter = 0, m_jobs = []\<rparr>]\<rparr>" 0
      "\<lparr>m_counter = 0, m_jobs = []\<rparr>" "Print_val ''job'' 1" "[]" "(''job'', 1)"]
    run_flows_off_its_end [of world0 0
      "\<lparr>m_counter = 0, m_jobs = []\<rparr>" "Print_val ''job'' 1" "[Lazy_assign 0 10, Lazy_assign 1 5]"
      "(''job'', 1)"]
  by (simp add: world0_def wait_at_def print_job_def)

text \<open>
  C6. For a barrier with no job and a watched cell whose callbacks print: watching a
  pending cell adds one to the counter and connects \<open>one_ready\<close> behind the callbacks of
  the cell, and resolving the cell with a value takes that one off again; watching a cell
  that is ready already takes the one off at once, within the call. But \<open>one_ready\<close>
  stays connected and takes one off at every resolution: a second resolution through
  \<open>emit_ready\<close>, which has no check, takes a second one off. A new barrier that watches
  one new future has its counter at 1, at 0 after the future is resolved, and at -1 after
  \<open>emit_ready\<close> on it.
\<close>

theorem watched_future_decrements_at_each_resolution:
  "(wait_at w j = Some y \<and> cell_at w p = Some x \<and> m_jobs y = [] \<and>
    m_ready_callbacks x = map Print names \<longrightarrow>
      (m_state x = LAZY_NOT_READY \<longrightarrow>
         exec [Wait_watch j p] w =
         Some (Inr (w\<lparr>cells := (cells w)[p := x\<lparr>m_ready_callbacks :=
                                     map Print names @ [One_ready j]\<rparr>],
                      waits := (waits w)[j := y\<lparr>m_counter := m_counter y + 1\<rparr>]\<rparr>)) \<and>
         exec [Wait_watch j p, Lazy_assign p v] w =
         Some (Inr (w\<lparr>cells := (cells w)[p := x\<lparr>m_state := LAZY_READY, m_value := v,
                                     m_ready_callbacks := map Print names @ [One_ready j]\<rparr>],
                      waits := (waits w)[j := y\<lparr>m_counter := m_counter y + 1 - 1\<rparr>],
                      cout := cout w @ map (\<lambda>n. (n, v)) names\<rparr>)) \<and>
         exec [Wait_watch j p, Lazy_assign p v, Lazy_emit_ready p] w =
         Some (Inr (w\<lparr>cells := (cells w)[p := x\<lparr>m_state := LAZY_READY, m_value := v,
                                     m_ready_callbacks := map Print names @ [One_ready j]\<rparr>],
                      waits := (waits w)[j := y\<lparr>m_counter := m_counter y + 1 - 1 - 1\<rparr>],
                      cout := cout w @ map (\<lambda>n. (n, v)) names @ map (\<lambda>n. (n, v)) names\<rparr>))) \<and>
      (m_state x = LAZY_READY \<longrightarrow>
         exec [Wait_watch j p] w =
         Some (Inr (w\<lparr>cells := (cells w)[p := x\<lparr>m_ready_callbacks :=
                                     map Print names @ [One_ready j]\<rparr>],
                      waits := (waits w)[j := y\<lparr>m_counter := m_counter y + 1 - 1\<rparr>]\<rparr>)))) \<and>
   exec [Wait_new, Lazy_new, Wait_watch 0 0] world0 =
   Some (Inr (world0\<lparr>cells := [\<lparr>m_state = LAZY_NOT_READY, m_value = 0,
                                  m_ready_callbacks = [One_ready 0], m_fail_callbacks = []\<rparr>],
                      waits := [\<lparr>m_counter = 1, m_jobs = []\<rparr>]\<rparr>)) \<and>
   exec [Wait_new, Lazy_new, Wait_watch 0 0, Lazy_assign 0 1] world0 =
   Some (Inr (world0\<lparr>cells := [\<lparr>m_state = LAZY_READY, m_value = 1,
                                  m_ready_callbacks = [One_ready 0], m_fail_callbacks = []\<rparr>],
                      waits := [\<lparr>m_counter = 0, m_jobs = []\<rparr>]\<rparr>)) \<and>
   exec [Wait_new, Lazy_new, Wait_watch 0 0, Lazy_assign 0 1, Lazy_emit_ready 0] world0 =
   Some (Inr (world0\<lparr>cells := [\<lparr>m_state = LAZY_READY, m_value = 1,
                                  m_ready_callbacks = [One_ready 0], m_fail_callbacks = []\<rparr>],
                      waits := [\<lparr>m_counter = - 1, m_jobs = []\<rparr>]\<rparr>))"
proof -
  have watched: "(m_state x = LAZY_NOT_READY \<longrightarrow>
         exec [Wait_watch j p] w =
         Some (Inr (w\<lparr>cells := (cells w)[p := x\<lparr>m_ready_callbacks :=
                                     map Print names @ [One_ready j]\<rparr>],
                      waits := (waits w)[j := y\<lparr>m_counter := m_counter y + 1\<rparr>]\<rparr>)) \<and>
         exec [Wait_watch j p, Lazy_assign p v] w =
         Some (Inr (w\<lparr>cells := (cells w)[p := x\<lparr>m_state := LAZY_READY, m_value := v,
                                     m_ready_callbacks := map Print names @ [One_ready j]\<rparr>],
                      waits := (waits w)[j := y\<lparr>m_counter := m_counter y + 1 - 1\<rparr>],
                      cout := cout w @ map (\<lambda>n. (n, v)) names\<rparr>)) \<and>
         exec [Wait_watch j p, Lazy_assign p v, Lazy_emit_ready p] w =
         Some (Inr (w\<lparr>cells := (cells w)[p := x\<lparr>m_state := LAZY_READY, m_value := v,
                                     m_ready_callbacks := map Print names @ [One_ready j]\<rparr>],
                      waits := (waits w)[j := y\<lparr>m_counter := m_counter y + 1 - 1 - 1\<rparr>],
                      cout := cout w @ map (\<lambda>n. (n, v)) names @ map (\<lambda>n. (n, v)) names\<rparr>))) \<and>
      (m_state x = LAZY_READY \<longrightarrow>
         exec [Wait_watch j p] w =
         Some (Inr (w\<lparr>cells := (cells w)[p := x\<lparr>m_ready_callbacks :=
                                     map Print names @ [One_ready j]\<rparr>],
                      waits := (waits w)[j := y\<lparr>m_counter := m_counter y + 1 - 1\<rparr>]\<rparr>)))"
    if "wait_at w j = Some y" and "cell_at w p = Some x" and "m_jobs y = []"
      and "m_ready_callbacks x = map Print names"
  proof -
    from that have facts: "j < length (waits w)" "waits w ! j = y"
      "p < length (cells w)" "cells w ! p = x" "m_jobs y = []"
      "m_ready_callbacks x = map Print names"
      by (simp_all add: wait_at_Some cell_at_Some)
    show ?thesis
      using facts
      by (simp add: run_defs fire_prints_comp fire_prints_comp_last)
  qed
  have new: "exec [Wait_new, Lazy_new, Wait_watch 0 0] world0 =
   Some (Inr (world0\<lparr>cells := [\<lparr>m_state = LAZY_NOT_READY, m_value = 0,
                                  m_ready_callbacks = [One_ready 0], m_fail_callbacks = []\<rparr>],
                      waits := [\<lparr>m_counter = 1, m_jobs = []\<rparr>]\<rparr>)) \<and>
   exec [Wait_new, Lazy_new, Wait_watch 0 0, Lazy_assign 0 1] world0 =
   Some (Inr (world0\<lparr>cells := [\<lparr>m_state = LAZY_READY, m_value = 1,
                                  m_ready_callbacks = [One_ready 0], m_fail_callbacks = []\<rparr>],
                      waits := [\<lparr>m_counter = 0, m_jobs = []\<rparr>]\<rparr>)) \<and>
   exec [Wait_new, Lazy_new, Wait_watch 0 0, Lazy_assign 0 1, Lazy_emit_ready 0] world0 =
   Some (Inr (world0\<lparr>cells := [\<lparr>m_state = LAZY_READY, m_value = 1,
                                  m_ready_callbacks = [One_ready 0], m_fail_callbacks = []\<rparr>],
                      waits := [\<lparr>m_counter = - 1, m_jobs = []\<rparr>]\<rparr>))"
    by (simp add: world0_def run_defs)
  from watched new show ?thesis by blast
qed

theorem watched_future_decrements_at_each_resolution_witness:
  "exec [Wait_watch 0 0, Lazy_assign 0 5]
     (world0\<lparr>cells := [\<lparr>m_state = LAZY_NOT_READY, m_value = 0, m_ready_callbacks = [Print ''obs''],
                         m_fail_callbacks = []\<rparr>],
             waits := [\<lparr>m_counter = 0, m_jobs = []\<rparr>]\<rparr>) =
   Some (Inr (world0\<lparr>cells := [\<lparr>m_state = LAZY_READY, m_value = 5,
                         m_ready_callbacks = [Print ''obs'', One_ready 0], m_fail_callbacks = []\<rparr>],
             waits := [\<lparr>m_counter = 0, m_jobs = []\<rparr>], cout := [(''obs'', 5)]\<rparr>)) \<and>
   exec [Wait_watch 0 0, Lazy_assign 0 5, Lazy_emit_ready 0]
     (world0\<lparr>cells := [\<lparr>m_state = LAZY_NOT_READY, m_value = 0, m_ready_callbacks = [Print ''obs''],
                         m_fail_callbacks = []\<rparr>],
             waits := [\<lparr>m_counter = 0, m_jobs = []\<rparr>]\<rparr>) =
   Some (Inr (world0\<lparr>cells := [\<lparr>m_state = LAZY_READY, m_value = 5,
                         m_ready_callbacks = [Print ''obs'', One_ready 0], m_fail_callbacks = []\<rparr>],
             waits := [\<lparr>m_counter = - 1, m_jobs = []\<rparr>],
             cout := [(''obs'', 5), (''obs'', 5)]\<rparr>)) \<and>
   exec [Wait_watch 0 0]
     (world0\<lparr>cells := [\<lparr>m_state = LAZY_READY, m_value = 5, m_ready_callbacks = [],
                         m_fail_callbacks = []\<rparr>],
             waits := [\<lparr>m_counter = 0, m_jobs = []\<rparr>]\<rparr>) =
   Some (Inr (world0\<lparr>cells := [\<lparr>m_state = LAZY_READY, m_value = 5,
                         m_ready_callbacks = [One_ready 0], m_fail_callbacks = []\<rparr>],
             waits := [\<lparr>m_counter = 0, m_jobs = []\<rparr>]\<rparr>))"
  using watched_future_decrements_at_each_resolution [of
      "world0\<lparr>cells := [\<lparr>m_state = LAZY_NOT_READY, m_value = 0, m_ready_callbacks = [Print ''obs''],
                         m_fail_callbacks = []\<rparr>],
             waits := [\<lparr>m_counter = 0, m_jobs = []\<rparr>]\<rparr>" 0
      "\<lparr>m_counter = 0, m_jobs = []\<rparr>" 0
      "\<lparr>m_state = LAZY_NOT_READY, m_value = 0, m_ready_callbacks = [Print ''obs''],
        m_fail_callbacks = []\<rparr>" "[''obs'']" 5]
    watched_future_decrements_at_each_resolution [of
      "world0\<lparr>cells := [\<lparr>m_state = LAZY_READY, m_value = 5, m_ready_callbacks = [],
                         m_fail_callbacks = []\<rparr>],
             waits := [\<lparr>m_counter = 0, m_jobs = []\<rparr>]\<rparr>" 0
      "\<lparr>m_counter = 0, m_jobs = []\<rparr>" 0
      "\<lparr>m_state = LAZY_READY, m_value = 5, m_ready_callbacks = [], m_fail_callbacks = []\<rparr>" "[]" 5]
  by (simp add: world0_def wait_at_def cell_at_def)

section \<open>Failing a cell and reading it\<close>

text \<open>
  C7. A call of \<open>emit_fail\<close> has no run, on any cell and whatever follows it: the body
  of \<open>Impl::emit_fail\<close> does not compile. It is the only function that writes
  \<open>LAZY_FAIL\<close>, so a run that returns and starts with no failed cell ends with no failed
  cell: the program never sets a cell to failed, and a fail callback, which only
  \<open>emit_fail\<close> and \<open>on_fail\<close> on a failed cell call, never has the failure delivered.
\<close>

theorem emit_fail_is_ill_formed:
  "exec (Lazy_emit_fail p # rest) w = Some (Inl Ill_formed) \<and>
   exec [Lazy_new, Lazy_on_fail 0 (Print_val ''failed'' 0), Lazy_emit_fail 0] world0 =
     Some (Inl Ill_formed) \<and>
   exec [Lazy_from_value 1, Lazy_on_fail 0 (Print_val ''failed'' 0), Lazy_emit_fail 0] world0 =
     Some (Inl Ill_formed) \<and>
   (exec cs w = Some (Inr w') \<and> none_failed w \<longrightarrow> none_failed w')"
proof -
  have "exec (Lazy_emit_fail p # rest) w = Some (Inl Ill_formed)"
    by (simp add: emit_fail_def)
  moreover have "exec [Lazy_new, Lazy_on_fail 0 (Print_val ''failed'' 0), Lazy_emit_fail 0] world0 =
     Some (Inl Ill_formed) \<and>
   exec [Lazy_from_value 1, Lazy_on_fail 0 (Print_val ''failed'' 0), Lazy_emit_fail 0] world0 =
     Some (Inl Ill_formed)"
    by (simp add: world0_def run_defs)
  ultimately show ?thesis
    using exec_none_failed by blast
qed

theorem emit_fail_is_ill_formed_witness:
  "exec [Lazy_new, Lazy_on_fail 0 (Print_val ''failed'' 0), Lazy_assign 0 3] world0 =
     Some (Inr (world0\<lparr>cells := [\<lparr>m_state = LAZY_READY, m_value = 3, m_ready_callbacks = [],
                                    m_fail_callbacks = [Print_val ''failed'' 0]\<rparr>]\<rparr>)) \<and>
   none_failed (world0\<lparr>cells := [\<lparr>m_state = LAZY_READY, m_value = 3, m_ready_callbacks = [],
                                   m_fail_callbacks = [Print_val ''failed'' 0]\<rparr>]\<rparr>)"
  using emit_fail_is_ill_formed [of 0 "[]" world0
      "[Lazy_new, Lazy_on_fail 0 (Print_val ''failed'' 0), Lazy_assign 0 3]"
      "world0\<lparr>cells := [\<lparr>m_state = LAZY_READY, m_value = 3, m_ready_callbacks = [],
                          m_fail_callbacks = [Print_val ''failed'' 0]\<rparr>]\<rparr>"]
  by (simp add: world0_def run_defs none_failed_def)

text \<open>
  C8. \<open>get\<close> returns the stored value of a cell that is ready, and fails the assertion
  on a cell that is pending or failed. So it fails on a new empty cell, and it returns
  the value of a cell resolved or constructed with that value. The case of a failed cell
  is stated on the state of the cell: \<open>emit_fail\<close> does not compile, so no sequence of
  calls leads there.
\<close>

theorem get_ready_or_violation:
  assumes "cell_at w p = Some x"
  shows "(m_state x = LAZY_READY \<longrightarrow> get p w = Inr (m_value x)) \<and>
         (m_state x = LAZY_NOT_READY \<longrightarrow> get p w = Inl Assertion_failed) \<and>
         (m_state x = LAZY_FAIL \<longrightarrow> get p w = Inl Assertion_failed) \<and>
         then_get [Lazy_new] (length (cells w)) w = Some (Inl Assertion_failed) \<and>
         then_get [Lazy_new, Lazy_assign (length (cells w)) v] (length (cells w)) w = Some (Inr v) \<and>
         then_get [Lazy_from_value v] (length (cells w)) w = Some (Inr v)"
  using assms
  by (simp add: get_def then_get_def Lazy_empty_def Lazy_value_def assign_def emit_ready_def
      cell_at_def set_cell_def Impl_new_def nth_append)

theorem get_ready_or_violation_witness:
  "get 0 (world0\<lparr>cells := [\<lparr>m_state = LAZY_READY, m_value = 42, m_ready_callbacks = [],
                     m_fail_callbacks = []\<rparr>], waits := [], cout := []\<rparr>) = Inr 42 \<and>
   get 0 (world0\<lparr>cells := [\<lparr>m_state = LAZY_NOT_READY, m_value = 42, m_ready_callbacks = [],
                     m_fail_callbacks = []\<rparr>], waits := [], cout := []\<rparr>) = Inl Assertion_failed \<and>
   get 0 (world0\<lparr>cells := [\<lparr>m_state = LAZY_FAIL, m_value = 42, m_ready_callbacks = [],
                     m_fail_callbacks = []\<rparr>], waits := [], cout := []\<rparr>) = Inl Assertion_failed \<and>
   then_get [Lazy_new, Lazy_assign 1 7] 1
     (world0\<lparr>cells := [\<lparr>m_state = LAZY_READY, m_value = 42, m_ready_callbacks = [],
                m_fail_callbacks = []\<rparr>], waits := [], cout := []\<rparr>) = Some (Inr 7)"
  using get_ready_or_violation [of
      "world0\<lparr>cells := [\<lparr>m_state = LAZY_READY, m_value = 42, m_ready_callbacks = [],
                     m_fail_callbacks = []\<rparr>], waits := [], cout := []\<rparr>" 0
      "\<lparr>m_state = LAZY_READY, m_value = 42, m_ready_callbacks = [], m_fail_callbacks = []\<rparr>" 7]
    get_ready_or_violation [of
      "world0\<lparr>cells := [\<lparr>m_state = LAZY_NOT_READY, m_value = 42, m_ready_callbacks = [],
                     m_fail_callbacks = []\<rparr>], waits := [], cout := []\<rparr>" 0
      "\<lparr>m_state = LAZY_NOT_READY, m_value = 42, m_ready_callbacks = [], m_fail_callbacks = []\<rparr>" 7]
    get_ready_or_violation [of
      "world0\<lparr>cells := [\<lparr>m_state = LAZY_FAIL, m_value = 42, m_ready_callbacks = [],
                     m_fail_callbacks = []\<rparr>], waits := [], cout := []\<rparr>" 0
      "\<lparr>m_state = LAZY_FAIL, m_value = 42, m_ready_callbacks = [], m_fail_callbacks = []\<rparr>" 7]
  by (simp add: world0_def cell_at_def)

section \<open>A routine under the scheduler\<close>

text \<open>
  C9. Two new cells \<open>A\<close> and \<open>B\<close>, and the routine \<open>x = __async_wait(A); y =
  __async_wait(B); result = x + y\<close> (printing \<open>x\<close>, \<open>y\<close> and \<open>result\<close>) started by
  the macro, whose body resolves \<open>A\<close> with \<open>va\<close> and then \<open>B\<close> with \<open>vb\<close>, with a
  print of \<open>after\<close> behind the statement of the macro: the run returns, the routine has
  got \<open>va\<close> for \<open>x\<close> and \<open>vb\<close> for \<open>y\<close>, the result is their sum, \<open>after\<close> is
  written once, behind the result, and \<open>coroutine_finished\<close> is 1 afterwards. The lines
  of a driver that prints between its two resolutions interleave with those of the
  routine, each resolution resuming the routine from within the cell's callbacks. The
  end of the routine resumes \<open>return_context\<close>, the point before the \<open>if\<close> of the macro,
  which finds \<open>coroutine_finished\<close> set and goes on behind the body: what the driver has
  left behind the second resolution does not run. With an empty body the routine stays
  suspended in the first wait: the wait has handed control to the driver, which goes on
  behind the body and writes \<open>after\<close> only; \<open>__async_continue\<close> is the callback of
  \<open>A\<close>, and \<open>B\<close> has none (\<open>coroutine_finished\<close> is 1 then as well: the macro sets it
  before the first transfer). With \<open>A\<close> resolved only, the routine has written \<open>x\<close> and
  is suspended in the second wait, with \<open>__async_continue\<close> the callback of \<open>B\<close>, and
  the driver goes on with the rest of its body.
\<close>

theorem coroutine_two_waits:
  "output_of [Lazy_new, Lazy_new,
              START_COROUTINE_AND_RUN_ONCE (sum_routine (length (cells w)) (Suc (length (cells w))))
                [Lazy_assign (length (cells w)) va, Lazy_assign (Suc (length (cells w))) vb],
              Invoke (Print_val ''after'' 0) None] w =
     Some (Inr (cout w @ [(''x'', va), (''y'', vb), (''result'', va + vb), (''after'', 0)])) \<and>
   finished_after [Lazy_new, Lazy_new,
              START_COROUTINE_AND_RUN_ONCE (sum_routine (length (cells w)) (Suc (length (cells w))))
                [Lazy_assign (length (cells w)) va, Lazy_assign (Suc (length (cells w))) vb],
              Invoke (Print_val ''after'' 0) None] w =
     Some (Inr 1) \<and>
   output_of [Lazy_new, Lazy_new,
              START_COROUTINE_AND_RUN_ONCE (sum_routine (length (cells w)) (Suc (length (cells w))))
                [Invoke (Print_val ''driver'' 0) None, Lazy_assign (length (cells w)) va,
                 Invoke (Print_val ''driver'' 1) None, Lazy_assign (Suc (length (cells w))) vb,
                 Invoke (Print_val ''driver'' 2) None],
              Invoke (Print_val ''after'' 0) None] w =
     Some (Inr (cout w @ [(''driver'', 0), (''x'', va), (''driver'', 1), (''y'', vb),
                          (''result'', va + vb), (''after'', 0)])) \<and>
   output_of [Lazy_new, Lazy_new,
              START_COROUTINE_AND_RUN_ONCE (sum_routine (length (cells w)) (Suc (length (cells w))))
                [],
              Invoke (Print_val ''after'' 0) None] w =
     Some (Inr (cout w @ [(''after'', 0)])) \<and>
   cell_after [Lazy_new, Lazy_new,
              START_COROUTINE_AND_RUN_ONCE (sum_routine (length (cells w)) (Suc (length (cells w))))
                [],
              Invoke (Print_val ''after'' 0) None]
      (length (cells w)) w =
     Some (Inr (Impl_new\<lparr>m_ready_callbacks := [Async_continue]\<rparr>)) \<and>
   cell_after [Lazy_new, Lazy_new,
              START_COROUTINE_AND_RUN_ONCE (sum_routine (length (cells w)) (Suc (length (cells w))))
                [],
              Invoke (Print_val ''after'' 0) None]
      (Suc (length (cells w))) w =
     Some (Inr Impl_new) \<and>
   finished_after [Lazy_new, Lazy_new,
              START_COROUTINE_AND_RUN_ONCE (sum_routine (length (cells w)) (Suc (length (cells w))))
                [],
              Invoke (Print_val ''after'' 0) None] w =
     Some (Inr 1) \<and>
   output_of [Lazy_new, Lazy_new,
              START_COROUTINE_AND_RUN_ONCE (sum_routine (length (cells w)) (Suc (length (cells w))))
                [Lazy_assign (length (cells w)) va, Invoke (Print_val ''driver'' 1) None],
              Invoke (Print_val ''after'' 0) None] w =
     Some (Inr (cout w @ [(''x'', va), (''driver'', 1), (''after'', 0)])) \<and>
   cell_after [Lazy_new, Lazy_new,
              START_COROUTINE_AND_RUN_ONCE (sum_routine (length (cells w)) (Suc (length (cells w))))
                [Lazy_assign (length (cells w)) va, Invoke (Print_val ''driver'' 1) None],
              Invoke (Print_val ''after'' 0) None]
      (length (cells w)) w =
     Some (Inr (Impl_new\<lparr>m_state := LAZY_READY, m_value := va,
                         m_ready_callbacks := [Async_continue]\<rparr>)) \<and>
   cell_after [Lazy_new, Lazy_new,
              START_COROUTINE_AND_RUN_ONCE (sum_routine (length (cells w)) (Suc (length (cells w))))
                [Lazy_assign (length (cells w)) va, Invoke (Print_val ''driver'' 1) None],
              Invoke (Print_val ''after'' 0) None]
      (Suc (length (cells w))) w =
     Some (Inr (Impl_new\<lparr>m_ready_callbacks := [Async_continue]\<rparr>))"
  by (simp add: output_of_def finished_after_def cell_after_def sum_routine_def run_defs
      sched_defs nth_append)

theorem coroutine_two_waits_witness:
  "output_of [Lazy_new, Lazy_new,
              START_COROUTINE_AND_RUN_ONCE (sum_routine 0 1) [Lazy_assign 0 10, Lazy_assign 1 5],
              Invoke (Print_val ''after'' 0) None]
     world0 =
     Some (Inr [(''x'', 10), (''y'', 5), (''result'', 15), (''after'', 0)]) \<and>
   finished_after [Lazy_new, Lazy_new,
              START_COROUTINE_AND_RUN_ONCE (sum_routine 0 1) [Lazy_assign 0 10, Lazy_assign 1 5],
              Invoke (Print_val ''after'' 0) None]
     world0 = Some (Inr 1)"
  using coroutine_two_waits [of world0 10 5]
  by (simp add: world0_def)

section \<open>Jobs stay queued\<close>

text \<open>
  C10. On a barrier whose counter is 0, the body of \<open>run\<close> appends the job to the job
  list and calls it, and then flows off its end: a printing job returns there, and the
  call of \<open>run\<close> has undefined behaviour. So the client that queues a job on a barrier
  at 0, on a new barrier for one, and then watches a new future and resolves it has no
  defined run up to the watch: the counter never returns to 0 after the job was queued,
  and the job is not called a second time.
\<close>

theorem job_queued_at_zero_has_no_run_after:
  "(wait_at w j = Some y \<and> m_counter y = 0 \<longrightarrow>
      run j (print_job job) w =
        Inr (w\<lparr>waits := (waits w)[j := y\<lparr>m_jobs := m_jobs y @ [print_job job]\<rparr>]\<rparr>,
             [Invoke (print_job job) None, Flow_off_end]) \<and>
      exec [Wait_run j (print_job job), Lazy_new, Wait_watch j (length (cells w)),
            Lazy_assign (length (cells w)) v] w = Some (Inl Undefined_behaviour)) \<and>
   exec [Wait_new, Wait_run (length (waits w)) (print_job job), Lazy_new,
         Wait_watch (length (waits w)) (length (cells w)), Lazy_assign (length (cells w)) v] w =
     Some (Inl Undefined_behaviour)"
  by (simp add: print_job_def run_defs nth_append)

theorem job_queued_at_zero_has_no_run_after_witness:
  "run 0 (Print_val ''job'' 2) (world0\<lparr>waits := [\<lparr>m_counter = 0, m_jobs = []\<rparr>]\<rparr>) =
     Inr (world0\<lparr>waits := [\<lparr>m_counter = 0, m_jobs = [Print_val ''job'' 2]\<rparr>]\<rparr>,
          [Invoke (Print_val ''job'' 2) None, Flow_off_end]) \<and>
   exec [Wait_run 0 (Print_val ''job'' 2), Lazy_new, Wait_watch 0 0, Lazy_assign 0 5]
     (world0\<lparr>waits := [\<lparr>m_counter = 0, m_jobs = []\<rparr>]\<rparr>) = Some (Inl Undefined_behaviour)"
  using job_queued_at_zero_has_no_run_after [of
      "world0\<lparr>waits := [\<lparr>m_counter = 0, m_jobs = []\<rparr>]\<rparr>" 0
      "\<lparr>m_counter = 0, m_jobs = []\<rparr>" "(''job'', 2)" 5]
  by (simp add: world0_def print_job_def run_defs)

end
